theory Spec2Isabelle
  imports Complex_Main "HOL-Library.Multiset"
begin

section \<open>Python values shared by the notebook cells\<close>

text \<open>
  Exceptions are values. \<open>NameError\<close> is what Python raises when a cell reads a
  variable that no earlier cell of the running kernel has bound; \<open>ServiceError\<close> stands
  for any \<open>Exception\<close> raised by a network call (embedding, search, completion), with
  its message; \<open>OverflowError\<close> is raised when an integer too large for a float meets
  a float in arithmetic. The other three are the typed failures of the helper module
  \<open>common/utils.py\<close> as the specification names them.
\<close>

datatype exn =
    NameError string
  | ServiceError string
  | OverflowError
  | UnknownModelError string
  | ExtractionError
  | RetrievalError

text \<open>\<open>str(n)\<close> of a Python integer: decimal digits, a minus sign for negatives.\<close>

definition digit_char :: "nat \<Rightarrow> char" where
  "digit_char d = ''0123456789'' ! d"

fun digits10 :: "nat \<Rightarrow> string" where
  "digits10 n = (if n < 10 then [digit_char n] else digits10 (n div 10) @ [digit_char (n mod 10)])"

declare digits10.simps [simp del]

definition str :: "int \<Rightarrow> string" where
  "str i = (if i < 0 then CHR ''-'' # digits10 (nat (- i)) else digits10 (nat i))"

section \<open>Token accounting and strategy selection (04-Complex-Docs, query cells)\<close>

text \<open>
  The two strategies. The notebook carries them as the strings \<open>"stuff"\<close> and
  \<open>"map_reduce"\<close>; no other value is ever assigned to \<open>chain_type\<close>.
\<close>

datatype chain_type = stuff | map_reduce

definition chain_type_name :: "chain_type \<Rightarrow> string" where
  "chain_type_name c = (case c of stuff \<Rightarrow> ''stuff'' | map_reduce \<Rightarrow> ''map_reduce'')"

text \<open>
  One value of \<open>ordered_results\<close>: the notebook reads \<open>value["chunk"]\<close> and
  \<open>value["location"]\<close> (which may be \<open>None\<close>); the specification calls the record a
  FusedCandidate with fields content, location and ordering score.
\<close>

record FusedCandidate =
  content :: string
  location :: "string option"
  ordering_score :: real

text \<open>langchain's \<open>Document(page_content=..., metadata={"source": ...})\<close>.\<close>

record Document =
  page_content :: string
  metadata_source :: string

text \<open>
  What the query cells read from the environment and from \<open>common/utils.py\<close>.
  \<open>num_tokens_from_string\<close> is the tokenizer's count for one string (a local, pure
  computation of an external tokenizer library): it is a parameter. \<open>window_table\<close> is
  the static model-to-window table of the helper module, which is not among the sources.
\<close>

record config =
  MODEL :: string
  COMPLETION_TOKENS :: int
  COMBINE_PROMPT_TEMPLATE :: string
  BLOB_SAS_TOKEN :: string
  num_tokens_from_string :: "string \<Rightarrow> int"
  window_table :: "string \<rightharpoonup> int"

text \<open>
  Modelled from the spec: \<open>model_tokens_limit\<close> of \<open>common/utils.py\<close> is missing from the
  sources. Section 4.2: the model-to-window mapping is a static table, and an unknown
  model name fails with \<open>UnknownModelError\<close> rather than guessing a default.
\<close>

definition model_tokens_limit :: "(string \<rightharpoonup> int) \<Rightarrow> string \<Rightarrow> exn + int" where
  "model_tokens_limit table model =
     (case table model of None \<Rightarrow> Inl (UnknownModelError model) | Some w \<Rightarrow> Inr w)"

text \<open>
  Modelled from the spec: \<open>num_tokens_from_docs\<close> of \<open>common/utils.py\<close> is missing from the
  sources. Section 4.2: the count of a collection is the sum over its documents, each
  counted independently. \<open>count_loop\<close> is the accumulating loop
  \<^verbatim>\<open>for d in docs: num_tokens += count(d.page_content)\<close>.
\<close>

fun count_loop :: "(string \<Rightarrow> int) \<Rightarrow> int \<Rightarrow> Document list \<Rightarrow> int" where
  "count_loop tok num_tokens [] = num_tokens"
| "count_loop tok num_tokens (d # docs) = count_loop tok (num_tokens + tok (page_content d)) docs"

text \<open>
  Modelled from the spec: \<open>num_tokens_from_docs\<close> itself, the loop of \<open>count_loop\<close> started
  at \<open>num_tokens = 0\<close>.
\<close>

definition num_tokens_from_docs :: "(string \<Rightarrow> int) \<Rightarrow> Document list \<Rightarrow> int" where
  "num_tokens_from_docs tok docs = count_loop tok 0 docs"

text \<open>
  The cell that builds \<open>top_docs\<close> (source lines 687-692): one Document per entry of
  \<open>ordered_results\<close>, in order; a missing location becomes the empty string before the
  SAS token is appended.
\<close>

fun top_docs_loop :: "string \<Rightarrow> Document list \<Rightarrow> FusedCandidate list \<Rightarrow> Document list" where
  "top_docs_loop sas top_docs [] = top_docs"
| "top_docs_loop sas top_docs (v # rest) =
     top_docs_loop sas
       (top_docs @ [\<lparr>page_content = content v,
                     metadata_source = (case location v of None \<Rightarrow> [] | Some l \<Rightarrow> l) @ sas\<rparr>])
       rest"

definition make_top_docs :: "config \<Rightarrow> FusedCandidate list \<Rightarrow> Document list" where
  "make_top_docs cfg ordered_results = top_docs_loop (BLOB_SAS_TOKEN cfg) [] ordered_results"

text \<open>
  Python's \<open>float\<close> is the IEEE double: 53 significant bits, every operation rounded to
  the nearest double, ties to the even significand. \<open>bit_length\<close> is the number of binary
  digits of a natural number.
\<close>

fun bit_length :: "nat \<Rightarrow> nat" where
  "bit_length n = (if n = 0 then 0 else Suc (bit_length (n div 2)))"

declare bit_length.simps [simp del]

text \<open>The multiple of \<open>2^s\<close> nearest to \<open>m\<close>, the even multiple when two are equally near.\<close>

definition round_half_even :: "int \<Rightarrow> nat \<Rightarrow> int" where
  "round_half_even m s =
     (let q = m div 2 ^ s; r = m mod 2 ^ s
      in if 2 * r > 2 ^ s \<or> (2 * r = 2 ^ s \<and> odd q) then (q + 1) * 2 ^ s else q * 2 ^ s)"

text \<open>
  The integer of at most 53 significant bits nearest to \<open>m\<close>: the value of \<open>float(m)\<close>,
  and, for a quotient \<open>m / 2^53\<close> with \<open>m\<close> not 0, the numerator of the double nearest
  to it.
\<close>

definition round53 :: "int \<Rightarrow> int" where
  "round53 m = sgn m * round_half_even \<bar>m\<bar> (bit_length (nat \<bar>m\<bar>) - 53)"

text \<open>
  The expression \<open>0.9 * tokens_limit\<close> of source line 724. The literal \<open>0.9\<close> is the
  double \<open>8106479329266893 / 2^53\<close>. The integer is converted to a float first, which
  raises \<open>OverflowError\<close> when the rounded value does not fit a double; the product of
  the two doubles is then rounded. The result is the numerator of the product over \<open>2^53\<close>.
\<close>

definition float_0_9_times :: "int \<Rightarrow> exn + int" where
  "float_0_9_times tokens_limit =
     (let x = round53 tokens_limit
      in if 2 ^ 1024 \<le> \<bar>x\<bar> then Inl OverflowError
         else Inr (round53 (8106479329266893 * x)))"

text \<open>
  The decision of source line 724:
  \<^verbatim>\<open>chain_type = "map_reduce" if requested_tokens > 0.9 * tokens_limit else "stuff"\<close>.
  Python compares the integer with the double exactly: \<open>requested_tokens > p / 2^53\<close>
  is \<open>requested_tokens * 2^53 > p\<close>.
\<close>

definition select_chain_type :: "int \<Rightarrow> int \<Rightarrow> exn + chain_type" where
  "select_chain_type requested_tokens tokens_limit =
     (case float_0_9_times tokens_limit of
        Inl e \<Rightarrow> Inl e
      | Inr product \<Rightarrow> Inr (if requested_tokens * 2 ^ 53 > product then map_reduce else stuff))"

text \<open>
  The variables of the running kernel that the query cells bind and read. \<open>None\<close> is a
  name that is not bound. A loaded chain is identified by the chain type it was loaded
  with. \<open>stdout\<close> collects the printed lines; \<open>chain_calls\<close> records each invocation of
  the chain with the documents passed to it (every such invocation reaches the completion
  service).
\<close>

record kernel =
  chain_type_var :: "chain_type option"
  chain_var :: "chain_type option"
  response_var :: "string option"
  stdout :: "string list"
  chain_calls :: "(chain_type \<times> Document list) list"

definition fresh_kernel :: kernel where
  "fresh_kernel = \<lparr>chain_type_var = None, chain_var = None, response_var = None,
                    stdout = [], chain_calls = []\<rparr>"

definition print :: "string \<Rightarrow> kernel \<Rightarrow> kernel" where
  "print line ker = ker\<lparr>stdout := stdout ker @ [line]\<rparr>"

text \<open>
  A cell leaves the kernel in some state and may have raised: the result is the exception,
  if any, with the kernel as the cell left it.
\<close>

type_synonym cell_result = "exn option \<times> kernel"

text \<open>Source lines 716-735: the strategy selector.\<close>

definition cell_select :: "config \<Rightarrow> Document list \<Rightarrow> kernel \<Rightarrow> cell_result" where
  "cell_select cfg top_docs ker =
     (if length top_docs > 0 then
        (case model_tokens_limit (window_table cfg) (MODEL cfg) of
           Inl e \<Rightarrow> (Some e, ker)
         | Inr tokens_limit \<Rightarrow>
             (let prompt_tokens = num_tokens_from_string cfg (COMBINE_PROMPT_TEMPLATE cfg);
                  context_tokens = num_tokens_from_docs (num_tokens_from_string cfg) top_docs;
                  requested_tokens = prompt_tokens + context_tokens + COMPLETION_TOKENS cfg
              in case select_chain_type requested_tokens tokens_limit of
                   Inl e \<Rightarrow> (Some e, ker)
                 | Inr chain_type \<Rightarrow>
                     (None,
                      print (''Chain Type selected: '' @ chain_type_name chain_type)
                     (print (''Token limit for '' @ MODEL cfg @ '' : '' @ str tokens_limit)
                     (print (''Requested token count: '' @ str requested_tokens)
                     (print ''--------''
                     (print (''Combined docs (context) token count: '' @ str context_tokens)
                     (print (''Max Completion Token count: '' @ str (COMPLETION_TOKENS cfg))
                     (print (''System prompt token count: '' @ str prompt_tokens)
                     (ker\<lparr>chain_type_var := Some chain_type\<rparr>))))))))))
      else (None, print ''NO RESULTS FROM AZURE SEARCH'' ker))"

text \<open>
  Source lines 745-752: the chain is loaded for the chain type found in the kernel.
  Reading \<open>chain_type\<close> when no cell has bound it raises \<open>NameError\<close>.
\<close>

definition cell_load_chain :: "kernel \<Rightarrow> cell_result" where
  "cell_load_chain ker =
     (case chain_type_var ker of
        None \<Rightarrow> (Some (NameError ''chain_type''), ker)
      | Some chain_type \<Rightarrow>
          (if chain_type = stuff then (None, ker\<lparr>chain_var := Some stuff\<rparr>)
           else if chain_type = map_reduce then (None, ker\<lparr>chain_var := Some map_reduce\<rparr>)
           else (None, ker)))"

text \<open>
  Source lines 771-773: \<^verbatim>\<open>response = chain({"input_documents": top_docs, "question": QUESTION, ...})\<close>.
  The cell has no condition on \<open>top_docs\<close>. What the chain returns is decided by the
  completion service: \<open>run_chain\<close> is a parameter.
\<close>

definition cell_invoke ::
  "(chain_type \<Rightarrow> Document list \<Rightarrow> string \<Rightarrow> exn + string) \<Rightarrow> Document list \<Rightarrow> string \<Rightarrow> kernel \<Rightarrow> cell_result" where
  "cell_invoke run_chain top_docs QUESTION ker =
     (case chain_var ker of
        None \<Rightarrow> (Some (NameError ''chain''), ker)
      | Some chain \<Rightarrow>
          (let ker1 = ker\<lparr>chain_calls := chain_calls ker @ [(chain, top_docs)]\<rparr>
           in case run_chain chain top_docs QUESTION of
                Inl e \<Rightarrow> (Some e, ker1)
              | Inr response \<Rightarrow> (None, ker1\<lparr>response_var := Some response\<rparr>)))"

text \<open>
  Source lines 687-692 as a cell: \<open>top_docs\<close> is rebuilt from \<open>ordered_results\<close> and
  its length is printed.
\<close>

definition cell_top_docs :: "config \<Rightarrow> FusedCandidate list \<Rightarrow> kernel \<Rightarrow> Document list \<times> kernel" where
  "cell_top_docs cfg ordered_results ker =
     (let top_docs = make_top_docs cfg ordered_results
      in (top_docs, print (''Number of chunks: '' @ str (int (length top_docs))) ker))"

text \<open>Cells run in order; the run stops at the first cell that raises.\<close>

definition then_cell :: "cell_result \<Rightarrow> (kernel \<Rightarrow> cell_result) \<Rightarrow> cell_result" where
  "then_cell r cell = (case fst r of Some e \<Rightarrow> r | None \<Rightarrow> cell (snd r))"

definition run_query_cells ::
  "config \<Rightarrow> (chain_type \<Rightarrow> Document list \<Rightarrow> string \<Rightarrow> exn + string) \<Rightarrow> FusedCandidate list \<Rightarrow> string
     \<Rightarrow> kernel \<Rightarrow> cell_result" where
  "run_query_cells cfg run_chain ordered_results QUESTION ker =
     (let built = cell_top_docs cfg ordered_results ker;
          top_docs = fst built
      in then_cell (then_cell (cell_select cfg top_docs (snd built)) cell_load_chain)
                   (cell_invoke run_chain top_docs QUESTION))"

section \<open>Page segmentation and ingestion (04-Complex-Docs, upload cells)\<close>

text \<open>
  One element of a \<open>book_map\<close>: the notebook reads \<open>page[0]\<close> (an integer) and \<open>page[2]\<close>
  (the page text); the specification lists the unit as (page number, offset, text).
\<close>

type_synonym page = "int \<times> int \<times> string"





text \<open>
  The search document of one page, the single element of \<open>upload_payload["value"]\<close>
  (source lines 586-599). \<open>doc_id\<close> is the key field \<open>"id"\<close>, \<open>doc_location\<close> the field
  \<open>"location"\<close>, \<open>search_action\<close> the field \<open>"@search.action"\<close>.
\<close>

record upload_doc =
  doc_id :: string
  title :: string
  chunk :: string
  chunkVector :: "real list"
  name :: string
  doc_location :: string
  page_num :: int
  search_action :: string

record response =
  status_code :: int
  body :: string

text \<open>
  The services the upload loop calls. The embedding service and the search service are
  remote: each call may raise, and what it returns may depend on everything that happened
  before, so both take and return the state \<open>'w\<close> of the outside world.
  \<open>text_to_base64\<close> (of \<open>common/utils.py\<close>, not among the sources) is a pure encoding of
  its argument: it is a parameter.
\<close>

record 'w services =
  text_to_base64 :: "string \<Rightarrow> string"
  embed_query :: "string \<Rightarrow> 'w \<Rightarrow> (exn + real list) \<times> 'w"
  post :: "upload_doc \<Rightarrow> 'w \<Rightarrow> (exn + response) \<times> 'w"

text \<open>
  The state the loop threads: the outside world, the printed lines, and the record of
  the arguments the embedder was called with.
\<close>

record 'w run_state =
  world :: 'w
  console :: "string list"
  embed_log :: "string list"

definition BLOB_CONTAINER_NAME :: string where
  "BLOB_CONTAINER_NAME = ''books''"

definition BASE_CONTAINER_URL :: string where
  "BASE_CONTAINER_URL = ''https://demodatasetsp.blob.core.windows.net/'' @ BLOB_CONTAINER_NAME @ ''/''"

definition exn_message :: "exn \<Rightarrow> string" where
  "exn_message e =
     (case e of
        NameError n \<Rightarrow> ''name '' @ [CHR 0x27] @ n @ [CHR 0x27] @ '' is not defined''
      | ServiceError m \<Rightarrow> m
      | OverflowError \<Rightarrow> ''int too large to convert to float''
      | UnknownModelError m \<Rightarrow> m
      | ExtractionError \<Rightarrow> []
      | RetrievalError \<Rightarrow> [])"

text \<open>What happened to one page: uploaded (status 200), answered with another status, or
  an exception was caught.\<close>

datatype outcome =
    Uploaded upload_doc
  | Rejected upload_doc response
  | Raised exn

definition payload_of :: "outcome \<Rightarrow> upload_doc option" where
  "payload_of oc = (case oc of Uploaded d \<Rightarrow> Some d | Rejected d r \<Rightarrow> Some d | Raised e \<Rightarrow> None)"

text \<open>
  The body of the inner loop, source lines 582-609, for one page: the \<open>try\<close> block and
  its handler. Both components of \<open>page\<close> are read before anything that can raise, so
  \<open>content\<close> is bound when the handler prints it.
\<close>

definition upload_page :: "'w services \<Rightarrow> string \<Rightarrow> page \<Rightarrow> 'w run_state \<Rightarrow> outcome \<times> 'w run_state" where
  "upload_page svc bookname page st =
     (let page_num = fst page + 1;
          content = snd (snd page);
          book_url = BASE_CONTAINER_URL @ bookname;
          embed_arg = (if content \<noteq> [] then content else ''-------'');
          embedded = embed_query svc embed_arg (world st);
          st1 = st\<lparr>world := snd embedded, embed_log := embed_log st @ [embed_arg]\<rparr>
      in case fst embedded of
           Inl e \<Rightarrow> (Raised e, st1\<lparr>console := console st1 @ [''Exception: '' @ exn_message e, content]\<rparr>)
         | Inr vec \<Rightarrow>
             (let upload_payload =
                    \<lparr>doc_id = text_to_base64 svc (bookname @ str page_num),
                     title = bookname @ ''_page_'' @ str page_num,
                     chunk = content,
                     chunkVector = vec,
                     name = bookname,
                     doc_location = book_url,
                     page_num = page_num,
                     search_action = ''upload''\<rparr>;
                  r = post svc upload_payload (world st1);
                  st2 = st1\<lparr>world := snd r\<rparr>
              in case fst r of
                   Inl e \<Rightarrow> (Raised e, st2\<lparr>console := console st2 @ [''Exception: '' @ exn_message e, content]\<rparr>)
                 | Inr resp \<Rightarrow>
                     if status_code resp \<noteq> 200
                     then (Rejected upload_payload resp,
                           st2\<lparr>console := console st2 @ [str (status_code resp), body resp]\<rparr>)
                     else (Uploaded upload_payload, st2)))"

text \<open>The inner loop over the pages of one book, and the outer loop over the books.\<close>

fun upload_pages :: "'w services \<Rightarrow> string \<Rightarrow> page list \<Rightarrow> 'w run_state \<Rightarrow> outcome list \<times> 'w run_state" where
  "upload_pages svc bookname [] st = ([], st)"
| "upload_pages svc bookname (page # bookmap) st =
     (let r = upload_page svc bookname page st;
          rest = upload_pages svc bookname bookmap (snd r)
      in (fst r # fst rest, snd rest))"

fun upload_books ::
  "'w services \<Rightarrow> (string \<times> page list) list \<Rightarrow> 'w run_state \<Rightarrow> (string \<times> outcome list) list \<times> 'w run_state" where
  "upload_books svc [] st = ([], st)"
| "upload_books svc ((bookname, bookmap) # book_pages_map) st =
     (let st1 = st\<lparr>console := console st @ [''Uploading chunks from '' @ bookname]\<rparr>;
          r = upload_pages svc bookname bookmap st1;
          rest = upload_books svc book_pages_map (snd r)
      in ((bookname, fst r) # fst rest, snd rest))"

text \<open>
  The search document of source lines 586-599 written as a function of the values it is
  built from, to state what the loop hands to the search service.
\<close>

definition search_document :: "'w services \<Rightarrow> string \<Rightarrow> int \<Rightarrow> string \<Rightarrow> real list \<Rightarrow> upload_doc" where
  "search_document svc bookname number page_text vec =
     \<lparr>doc_id = text_to_base64 svc (bookname @ str number),
      title = bookname @ ''_page_'' @ str number,
      chunk = page_text,
      chunkVector = vec,
      name = bookname,
      doc_location = BASE_CONTAINER_URL @ bookname,
      page_num = number,
      search_action = ''upload''\<rparr>"

section \<open>Result fusion\<close>

text \<open>
  Modelled from the spec: one hit of one backend query, with the fields of SearchHit in
  section 3 (\<open>get_search_results\<close> of \<open>common/utils.py\<close>, which reads the hits, is missing
  from the sources).
\<close>

record SearchHit =
  index_name :: string
  document_id :: string
  hit_content :: string
  hit_title :: string
  hit_location :: "string option"
  relevance_score :: real
  semantic_rerank_score :: "real option"

text \<open>
  Modelled from the spec: \<open>get_search_results\<close> of \<open>common/utils.py\<close> is missing from the
  sources (the notebook only calls it, source lines 642-651). Section 4.3, step 2: the
  reranker score of a hit is its ordering score. How an index without reranker score gets
  a surrogate score is left open by the specification: \<open>surrogate\<close>, a function of the
  rank of the hit in its index and of the hit, is a parameter.
\<close>

definition to_candidate :: "(nat \<Rightarrow> SearchHit \<Rightarrow> real) \<Rightarrow> nat \<times> SearchHit \<Rightarrow> FusedCandidate" where
  "to_candidate surrogate rh =
     \<lparr>content = hit_content (snd rh),
      location = hit_location (snd rh),
      ordering_score = (case semantic_rerank_score (snd rh) of
                          Some s \<Rightarrow> s
                        | None \<Rightarrow> surrogate (fst rh) (snd rh))\<rparr>"

text \<open>
  Modelled from the spec: section 4.3, step 1 and the failure policy, for the missing
  \<open>get_search_results\<close>. The retrieval calls are external: \<open>index_results\<close> gives, for each
  named index, the hits the backend returned in rank order, or \<open>None\<close> when that query
  failed. A failed query is left out; an index contributes up to \<open>k\<close> hits.
\<close>

fun answered :: "nat \<Rightarrow> (string \<times> SearchHit list option) list \<Rightarrow> (string \<times> SearchHit list) list" where
  "answered k [] = []"
| "answered k ((ix, None) # rest) = answered k rest"
| "answered k ((ix, Some hits) # rest) = (ix, take k hits) # answered k rest"

text \<open>
  Modelled from the spec: the highest relevance score among the hits of one backend
  (section 3, for the missing \<open>get_search_results\<close>); 0 for a backend without hits, which
  contributes no candidate.
\<close>

definition max_relevance :: "SearchHit list \<Rightarrow> real" where
  "max_relevance hits =
     (case hits of [] \<Rightarrow> 0 | h # hs \<Rightarrow> fold (\<lambda>x m. max (relevance_score x) m) hs (relevance_score h))"

text \<open>
  Modelled from the spec: section 4.3, step 2, for the missing \<open>get_search_results\<close>: the
  hit lists are merged into one collection. The order of the merge is the order in which
  ties of the ordering score are broken later (section 3: the backend with the higher
  maximal relevance first; section 4.3, step 5: within a backend, the original retrieval
  rank).
\<close>

definition merge_hits ::
  "(nat \<Rightarrow> SearchHit \<Rightarrow> real) \<Rightarrow> nat \<Rightarrow> (string \<times> SearchHit list option) list \<Rightarrow> FusedCandidate list" where
  "merge_hits surrogate k index_results =
     concat (map (\<lambda>ih. map (to_candidate surrogate) (enumerate 0 (snd ih)))
                 (sort_key (\<lambda>ih. - max_relevance (snd ih)) (answered k index_results)))"

text \<open>
  Modelled from the spec: section 4.3, step 4, for the missing \<open>get_search_results\<close>, on a
  list in descending score order: of candidates with the same content or the same
  location, the first is the one with the higher score; it is kept and the later ones
  are removed.
\<close>

function dedup :: "FusedCandidate list \<Rightarrow> FusedCandidate list" where
  "dedup [] = []"
| "dedup (c # cs) = c # dedup (filter (\<lambda>d. content d \<noteq> content c \<and> location d \<noteq> location c) cs)"
  by pat_completeness auto
termination
  by (relation "measure length") (auto simp: less_Suc_eq_le)

text \<open>
  Modelled from the spec: the condition of \<open>RetrievalError\<close> in section 4.3, all index
  queries failed (for the missing \<open>get_search_results\<close>).
\<close>

definition all_failed :: "(string \<times> SearchHit list option) list \<Rightarrow> bool" where
  "all_failed index_results = list_all (\<lambda>ir. snd ir = None) index_results"

text \<open>
  Modelled from the spec: \<open>get_search_results\<close> of \<open>common/utils.py\<close>, missing from the
  sources, as the contract \<open>fuse\<close> of section 4.3: merge (steps 1 and 2), drop the
  candidates below the threshold (step 3), order by descending score with a stable sort,
  remove duplicates (step 4), truncate to \<open>k\<close> (step 5); \<open>RetrievalError\<close> when every index
  query failed.
\<close>

definition fuse ::
  "(nat \<Rightarrow> SearchHit \<Rightarrow> real) \<Rightarrow> (string \<times> SearchHit list option) list \<Rightarrow> nat \<Rightarrow> real
     \<Rightarrow> exn + FusedCandidate list" where
  "fuse surrogate index_results k rerankerThreshold =
     (if all_failed index_results then Inl RetrievalError
      else Inr (take k
                 (dedup
                   (sort_key (\<lambda>c. - ordering_score c)
                     (filter (\<lambda>c. \<not> ordering_score c < rerankerThreshold)
                       (merge_hits surrogate k index_results))))))"

section \<open>Concrete inputs used in the examples\<close>

text \<open>
  Standard Base64 over the bytes of a string, to instantiate the \<open>text_to_base64\<close>
  parameter on concrete inputs.
\<close>

definition b64_char :: "nat \<Rightarrow> char" where
  "b64_char n = ''ABCDEFGHIJKLMNOPQRSTUVWXYZabcdefghijklmnopqrstuvwxyz0123456789+/'' ! (n mod 64)"

fun b64_bytes :: "nat list \<Rightarrow> string" where
  "b64_bytes [] = []"
| "b64_bytes [a] = [b64_char (a div 4), b64_char ((a mod 4) * 16), CHR ''='', CHR ''='']"
| "b64_bytes [a, b] =
     [b64_char (a div 4), b64_char ((a mod 4) * 16 + b div 16), b64_char ((b mod 16) * 4), CHR ''='']"
| "b64_bytes (a # b # c # rest) =
     [b64_char (a div 4), b64_char ((a mod 4) * 16 + b div 16),
      b64_char ((b mod 16) * 4 + c div 64), b64_char (c mod 64)] @ b64_bytes rest"

definition b64encode :: "string \<Rightarrow> string" where
  "b64encode s = b64_bytes (map of_char s)"

text \<open>
  A kernel configuration with the numbers of the notebook's run: a 16,384-token window,
  a prompt template of 1,669 tokens, 1,000 completion tokens. The tokenizer stand-in
  gives the template and two page texts fixed counts and any other text 1,000 tokens per
  character.
\<close>

definition tok_A :: "string \<Rightarrow> int" where
  "tok_A s = (if s = ''TEMPLATE'' then 1669
              else if s = ''page'' then 353
              else if s = ''short page'' then 352
              else 1000 * int (length s))"

definition config_A :: config where
  "config_A = \<lparr>MODEL = ''model-A'', COMPLETION_TOKENS = 1000,
                COMBINE_PROMPT_TEMPLATE = ''TEMPLATE'', BLOB_SAS_TOKEN = ''?sv=1'',
                num_tokens_from_string = tok_A,
                window_table = [''model-A'' \<mapsto> 16384]\<rparr>"

text \<open>Ten candidates of 3,529 tokens in all.\<close>

definition results_A :: "FusedCandidate list" where
  "results_A = replicate 9 \<lparr>content = ''page'', location = Some ''u'', ordering_score = 2\<rparr>
               @ [\<lparr>content = ''short page'', location = None, ordering_score = 1\<rparr>]"

definition answer_A :: "chain_type \<Rightarrow> Document list \<Rightarrow> string \<Rightarrow> exn + string" where
  "answer_A chain docs question = Inr ''an answer''"

text \<open>Two candidate sets for the same configuration: 14,000 and 15,000 tokens.\<close>

definition docs_14 :: "Document list" where
  "docs_14 = [\<lparr>page_content = ''aaaaaaaaaaaaaa'', metadata_source = ''u''\<rparr>]"

definition docs_15 :: "Document list" where
  "docs_15 = [\<lparr>page_content = ''aaaaaaa'', metadata_source = ''u''\<rparr>,
              \<lparr>page_content = ''bbbbbbbb'', metadata_source = ''v''\<rparr>]"

text \<open>
  Services for a run of the upload loop in which some pages fail. The world is the search
  index: the documents the search service has stored, by key. The embedder raises on the
  text \<open>boom\<close> and otherwise returns a vector that tells the length of the text it was
  given. The search service raises for the chunk \<open>drop\<close>, answers 413 for the chunk
  \<open>too big\<close> and 500 for the chunk \<open>fail\<close>, and otherwise stores the document under
  its key, replacing a document with the same key, and answers 200.
\<close>

definition embed_B :: "string \<Rightarrow> (string \<rightharpoonup> upload_doc) \<Rightarrow> (exn + real list) \<times> (string \<rightharpoonup> upload_doc)" where
  "embed_B s w = (if s = ''boom'' then (Inl (ServiceError ''rate limit''), w)
                  else (Inr [real (length s)], w))"

definition post_B :: "upload_doc \<Rightarrow> (string \<rightharpoonup> upload_doc) \<Rightarrow> (exn + response) \<times> (string \<rightharpoonup> upload_doc)" where
  "post_B d w =
     (if chunk d = ''drop'' then (Inl (ServiceError ''connection reset''), w)
      else if chunk d = ''too big'' then (Inr \<lparr>status_code = 413, body = ''too large''\<rparr>, w)
      else if chunk d = ''fail'' then (Inr \<lparr>status_code = 500, body = ''server error''\<rparr>, w)
      else (Inr \<lparr>status_code = 200, body = []\<rparr>, w(doc_id d \<mapsto> d)))"

definition services_B :: "(string \<rightharpoonup> upload_doc) services" where
  "services_B = \<lparr>text_to_base64 = b64encode, embed_query = embed_B, post = post_B\<rparr>"

definition start_B :: "(string \<rightharpoonup> upload_doc) run_state" where
  "start_B = \<lparr>world = Map.empty, console = [], embed_log = []\<rparr>"

definition books_B :: "(string \<times> page list) list" where
  "books_B = [(''a.pdf'', [(0, 0, ''boom''), (1, 4, []), (2, 4, ''fine'')]),
              (''b.pdf'', [(0, 0, ''too big''), (1, 7, ''drop''), (2, 11, ''fail''), (3, 15, ''ok'')])]"


text \<open>
  Hits of three indexes: index A returns X with reranker score 2.1; index C failed; index
  B returns Y with the content of X and score 1.8, Z below the threshold, and W.
\<close>

definition hit_X :: SearchHit where
  "hit_X = \<lparr>index_name = ''A'', document_id = ''1'', hit_content = ''shared text'', hit_title = ''X'',
            hit_location = Some ''loc-a'', relevance_score = 0.5, semantic_rerank_score = Some 2.1\<rparr>"

definition hit_Y :: SearchHit where
  "hit_Y = \<lparr>index_name = ''B'', document_id = ''7'', hit_content = ''shared text'', hit_title = ''Y'',
            hit_location = Some ''loc-b'', relevance_score = 0.9, semantic_rerank_score = Some 1.8\<rparr>"

definition hit_Z :: SearchHit where
  "hit_Z = \<lparr>index_name = ''B'', document_id = ''8'', hit_content = ''weak text'', hit_title = ''Z'',
            hit_location = Some ''loc-c'', relevance_score = 0.7, semantic_rerank_score = Some 0.4\<rparr>"

definition hit_W :: SearchHit where
  "hit_W = \<lparr>index_name = ''B'', document_id = ''9'', hit_content = ''best text'', hit_title = ''W'',
            hit_location = Some ''loc-d'', relevance_score = 0.2, semantic_rerank_score = Some 3\<rparr>"

definition index_results_AB :: "(string \<times> SearchHit list option) list" where
  "index_results_AB = [(''A'', Some [hit_X]), (''C'', None), (''B'', Some [hit_Y, hit_Z, hit_W])]"

definition no_surrogate :: "nat \<Rightarrow> SearchHit \<Rightarrow> real" where
  "no_surrogate rank h = 0"

section \<open>Properties of the strategy selector\<close>

lemma count_loop_sum:
  "count_loop tok a docs = a + sum_list (map (\<lambda>d. tok (page_content d)) docs)"
  by (induction docs arbitrary: a) simp_all

lemma top_docs_loop_append:
  "top_docs_loop sas acc rs =
     acc @ map (\<lambda>v. \<lparr>page_content = content v,
                       metadata_source = (case location v of None \<Rightarrow> [] | Some l \<Rightarrow> l) @ sas\<rparr>) rs"
  by (induction rs arbitrary: acc) simp_all

lemma length_make_top_docs: "length (make_top_docs cfg rs) = length rs"
  by (simp add: make_top_docs_def top_docs_loop_append)

lemma num_tokens_make_top_docs:
  "num_tokens_from_docs tok (make_top_docs cfg rs) = sum_list (map (\<lambda>v. tok (content v)) rs)"
  by (simp add: num_tokens_from_docs_def count_loop_sum make_top_docs_def top_docs_loop_append comp_def)

lemma chain_type_var_print: "chain_type_var (print l k) = chain_type_var k"
  by (simp add: print_def)

lemma chain_var_print: "chain_var (print l k) = chain_var k"
  by (simp add: print_def)

lemma chain_calls_print: "chain_calls (print l k) = chain_calls k"
  by (simp add: print_def)

subsection \<open>The double product and the exact product\<close>

lemma bit_length_le: "n < 2 ^ k \<Longrightarrow> bit_length n \<le> k"
proof (induction k arbitrary: n)
  case 0
  then show ?case by (simp add: bit_length.simps)
next
  case (Suc k)
  show ?case
  proof (cases "n = 0")
    case True
    then show ?thesis by (simp add: bit_length.simps)
  next
    case False
    from Suc.prems have "n div 2 < 2 ^ k" by auto
    from Suc.IH [OF this] False show ?thesis by (subst bit_length.simps) simp
  qed
qed

lemma round_half_even_lower:
  assumes "k * 2 ^ s \<le> m"
  shows "k * 2 ^ s \<le> round_half_even m s"
proof -
  let ?g = "(2::int) ^ s"
  have g: "0 < ?g" by simp
  have "(k * ?g) div ?g \<le> m div ?g"
    using assms g by (rule zdiv_mono1)
  then have "k \<le> m div ?g" by simp
  then have a: "k * ?g \<le> (m div ?g) * ?g"
    using g by (simp add: mult_right_mono)
  have "(m div ?g) * ?g \<le> (m div ?g + 1) * ?g"
    using g by (simp add: mult_right_mono)
  then have "(m div ?g) * ?g \<le> round_half_even m s"
    by (simp add: round_half_even_def Let_def)
  with a show ?thesis by linarith
qed

lemma round_half_even_upper: "2 * round_half_even m s \<le> 2 * m + 2 ^ s"
proof -
  let ?g = "(2::int) ^ s"
  let ?q = "m div ?g"
  let ?r = "m mod ?g"
  have d: "?q * ?g + ?r = m" by (rule div_mult_mod_eq)
  have r: "0 \<le> ?r" by simp
  have g: "0 < ?g" by simp
  show ?thesis
  proof (cases "2 * ?r > ?g \<or> (2 * ?r = ?g \<and> odd ?q)")
    case True
    then have e: "round_half_even m s = (?q + 1) * ?g"
      by (simp add: round_half_even_def Let_def)
    have "(?q + 1) * ?g = ?q * ?g + ?g" by (simp add: distrib_right)
    with e d True show ?thesis by linarith
  next
    case False
    then have e: "round_half_even m s = ?q * ?g"
      by (simp add: round_half_even_def Let_def)
    with d r g show ?thesis by linarith
  qed
qed

lemma round53_nonneg:
  assumes "0 \<le> m"
  shows "round53 m = round_half_even m (bit_length (nat m) - 53)"
proof (cases "m = 0")
  case True
  then show ?thesis by (simp add: round53_def round_half_even_def)
next
  case False
  with assms have "0 < m" by linarith
  then show ?thesis by (simp add: round53_def)
qed

lemma round53_small:
  assumes "0 \<le> n" and "n < 2 ^ 53"
  shows "round53 n = n"
proof -
  from assms have "nat n < 2 ^ 53"
    by (simp add: nat_less_iff)
  then have "bit_length (nat n) \<le> 53" by (rule bit_length_le)
  then have s: "bit_length (nat n) - 53 = 0" by simp
  show ?thesis using round53_nonneg [OF assms(1)] by (simp add: s round_half_even_def)
qed

lemma round53_product:
  assumes "0 \<le> L" and "L < 2 ^ 49"
  shows "(R * 2 ^ 53 > round53 (8106479329266893 * L)) = (10 * R > 9 * L)"
proof -
  define p where "p = 8106479329266893 * L"
  define s where "s = bit_length (nat p) - 53"
  define a where "a = (9 * L) div 10"
  define b where "b = (9 * L) mod 10"
  define T where "T = round_half_even p s"
  have L49: "L < 562949953421312" using assms(2) by simp
  have p10: "p = 8106479329266893 * L" by (simp add: p_def)
  have p0: "0 \<le> p" using assms(1) p10 by linarith
  have "p < 2 ^ 102" using L49 p10 by simp
  then have "nat p < 2 ^ 102" using p0 by (simp add: nat_less_iff)
  then have "bit_length (nat p) \<le> 102" by (rule bit_length_le)
  then have s: "s \<le> 49" by (simp add: s_def)
  have r53: "round53 (8106479329266893 * L) = T"
    using round53_nonneg [OF p0] by (simp add: T_def s_def p_def)
  have ab: "9 * L = 10 * a + b" by (simp add: a_def b_def)
  have b: "0 \<le> b" "b \<le> 9" by (simp_all add: b_def)
  have split: "(9007199254740992::int) = 2 ^ (53 - s) * 2 ^ s"
  proof -
    have "(2::int) ^ 53 = 2 ^ (53 - s + s)" using s by simp
    then show ?thesis by (simp only: power_add) simp
  qed
  have "a * 9007199254740992 \<le> p" using p10 ab b assms(1) by linarith
  then have "(a * 2 ^ (53 - s)) * 2 ^ s \<le> p"
    by (simp add: split mult.assoc)
  then have "(a * 2 ^ (53 - s)) * 2 ^ s \<le> T"
    unfolding T_def by (rule round_half_even_lower)
  then have lo: "a * 9007199254740992 \<le> T"
    by (simp add: split mult.assoc)
  have "(2::int) ^ s \<le> 2 ^ 49" using s by (intro power_increasing) simp_all
  also have "(2::int) ^ 49 = 562949953421312" by simp
  finally have "(2::int) ^ s \<le> 562949953421312" .
  with round_half_even_upper [of p s] have "2 * T \<le> 2 * p + 562949953421312"
    unfolding T_def by linarith
  with p10 ab b L49 have hi: "T < a * 9007199254740992 + 9007199254740992" by linarith
  have K: "R * 2 ^ 53 = R * 9007199254740992" by simp
  show ?thesis
  proof (cases "R \<le> a")
    case True
    with lo ab b show ?thesis unfolding r53 K by linarith
  next
    case False
    with hi ab b show ?thesis unfolding r53 K by linarith
  qed
qed

lemma float_0_9_times_window:
  assumes "0 \<le> L" and "L < 2 ^ 49"
  shows "float_0_9_times L = Inr (round53 (8106479329266893 * L))"
proof -
  have "L < 2 ^ 53"
  proof -
    have "(2::int) ^ 49 \<le> 2 ^ 53" by (intro power_increasing) simp_all
    with assms(2) show ?thesis by linarith
  qed
  with assms(1) have x: "round53 L = L" by (rule round53_small)
  have "(2::int) ^ 49 \<le> 2 ^ 1024" by (intro power_increasing) simp_all
  with assms have "\<not> 2 ^ 1024 \<le> \<bar>L\<bar>" by linarith
  then show ?thesis by (simp only: float_0_9_times_def x Let_def if_False)
qed

lemma select_chain_type_window:
  assumes "0 \<le> L" and "L < 2 ^ 49"
  shows "select_chain_type R L = Inr (if 10 * R > 9 * L then map_reduce else stuff)"
  using round53_product [OF assms, of R]
  by (simp only: select_chain_type_def float_0_9_times_window [OF assms] sum.case)

lemma exact_threshold:
  "(10 * R > 9 * L) = (real_of_int R > 0.9 * real_of_int L)"
proof -
  have "(9 * L < 10 * R) = (real_of_int (9 * L) < real_of_int (10 * R))"
    by (simp only: of_int_less_iff)
  also have "\<dots> = (0.9 * real_of_int L < real_of_int R)" by auto
  finally show ?thesis by simp
qed

text \<open>
  Beyond the bound the double product and the exact product part: at this window the
  requested count exceeds nine tenths of the window, and line 724 still selects
  \<open>stuff\<close>.
\<close>

lemma double_product_beyond_bound:
  "select_chain_type 1266637395197953 1407374883553281 = Inr stuff
   \<and> 10 * (1266637395197953::int) > 9 * 1407374883553281"
proof -
  have x: "round53 1407374883553281 = 1407374883553281"
    by (rule round53_small) simp_all
  have "(1407374883553281::int) < 2 ^ 51" by simp
  moreover have "(2::int) ^ 51 \<le> 2 ^ 1024" by (intro power_increasing) simp_all
  ultimately have small: "\<not> (2::int) ^ 1024 \<le> \<bar>1407374883553281\<bar>" by linarith
  have P: "(8106479329266893::int) * 1407374883553281 = 11408855402054073001424634825933"
    by simp
  have bl: "bit_length 11408855402054073001424634825933 = 104"
    by (simp add: bit_length.simps)
  have "round53 11408855402054073001424634825933
          = round_half_even 11408855402054073001424634825933 51"
    using round53_nonneg [of 11408855402054073001424634825933] by (simp add: bl)
  also have "\<dots> = 11408855402054073620669583589376"
    by (simp add: round_half_even_def Let_def)
  finally have p: "round53 11408855402054073001424634825933 = 11408855402054073620669583589376" .
  have f: "float_0_9_times 1407374883553281 = Inr 11408855402054073620669583589376"
    using small by (simp only: float_0_9_times_def x Let_def if_False P p)
  show ?thesis by (simp add: select_chain_type_def f)
qed

lemma window_16384: "(0::int) \<le> 16384" "(16384::int) < 2 ^ 49"
  by simp_all

subsection \<open>The selector cell\<close>

lemma cell_select_selected:
  assumes "top_docs \<noteq> []" and "window_table cfg (MODEL cfg) = Some w"
    and "select_chain_type
           (num_tokens_from_string cfg (COMBINE_PROMPT_TEMPLATE cfg)
            + num_tokens_from_docs (num_tokens_from_string cfg) top_docs
            + COMPLETION_TOKENS cfg) w = Inr ct"
  shows "fst (cell_select cfg top_docs ker) = None
       \<and> chain_type_var (snd (cell_select cfg top_docs ker)) = Some ct
       \<and> chain_calls (snd (cell_select cfg top_docs ker)) = chain_calls ker"
  using assms
  by (simp add: cell_select_def model_tokens_limit_def Let_def chain_type_var_print chain_calls_print)

lemma cell_select_returns:
  assumes "top_docs \<noteq> []" and "fst (cell_select cfg top_docs ker) = None"
  shows "\<exists>w ct. window_table cfg (MODEL cfg) = Some w
           \<and> select_chain_type
               (num_tokens_from_string cfg (COMBINE_PROMPT_TEMPLATE cfg)
                + num_tokens_from_docs (num_tokens_from_string cfg) top_docs
                + COMPLETION_TOKENS cfg) w = Inr ct"
  using assms
  by (auto simp add: cell_select_def model_tokens_limit_def Let_def
      split: option.splits sum.splits)

lemma cell_select_empty: "cell_select cfg [] ker = (None, print ''NO RESULTS FROM AZURE SEARCH'' ker)"
  by (simp add: cell_select_def)

text \<open>
  Claim C1. For a non-empty set of fused candidates, a model whose window is known and a
  window from 0 to below \<open>2^49\<close> (every token window is), the selector cell raises
  nothing and binds \<open>chain_type\<close> to \<open>map_reduce\<close> exactly when prompt tokens + sum of the
  candidates' content tokens + completion tokens exceeds 0.9 times the context window,
  taken exactly, and to \<open>stuff\<close> otherwise. With a window of 16,384 tokens, 1,669
  prompt tokens and 1,000 completion tokens, candidates of 3,529 tokens give \<open>stuff\<close>
  and candidates of 14,000 tokens give \<open>map_reduce\<close>. The bound on the window is needed:
  the product of line 724 is a rounded double, and for windows from about \<open>2^50\<close> it
  can lie on the other side of the requested token count than the exact product
  (\<open>double_product_beyond_bound\<close> below).
\<close>

theorem selector_decision_rule:
  assumes "ordered_results \<noteq> []"
    and "window_table cfg (MODEL cfg) = Some contextWindow"
    and "0 \<le> contextWindow" and "contextWindow < 2 ^ 49"
  shows "fst (cell_select cfg (make_top_docs cfg ordered_results) ker) = None
       \<and> chain_type_var (snd (cell_select cfg (make_top_docs cfg ordered_results) ker)) =
           Some (if real_of_int (num_tokens_from_string cfg (COMBINE_PROMPT_TEMPLATE cfg)
                                 + sum_list (map (\<lambda>c. num_tokens_from_string cfg (content c)) ordered_results)
                                 + COMPLETION_TOKENS cfg)
                    > 0.9 * real_of_int contextWindow
                 then map_reduce else stuff)
       \<and> select_chain_type (1669 + 3529 + 1000) 16384 = Inr stuff
       \<and> select_chain_type (1669 + 14000 + 1000) 16384 = Inr map_reduce"
proof -
  let ?requested = "num_tokens_from_string cfg (COMBINE_PROMPT_TEMPLATE cfg)
                    + num_tokens_from_docs (num_tokens_from_string cfg) (make_top_docs cfg ordered_results)
                    + COMPLETION_TOKENS cfg"
  have ne: "make_top_docs cfg ordered_results \<noteq> []"
    using assms(1) length_make_top_docs [of cfg ordered_results] by auto
  have sel: "select_chain_type ?requested contextWindow
               = Inr (if real_of_int ?requested > 0.9 * real_of_int contextWindow then map_reduce else stuff)"
    by (simp only: select_chain_type_window [OF assms(3,4)] exact_threshold)
  have rule: "fst (cell_select cfg (make_top_docs cfg ordered_results) ker) = None
       \<and> chain_type_var (snd (cell_select cfg (make_top_docs cfg ordered_results) ker)) =
           Some (if real_of_int (num_tokens_from_string cfg (COMBINE_PROMPT_TEMPLATE cfg)
                                 + sum_list (map (\<lambda>c. num_tokens_from_string cfg (content c)) ordered_results)
                                 + COMPLETION_TOKENS cfg)
                    > 0.9 * real_of_int contextWindow
                 then map_reduce else stuff)"
    using cell_select_selected [OF ne assms(2) sel, of ker]
    by (simp only: num_tokens_make_top_docs)
  have s1: "select_chain_type (1669 + 3529 + 1000) 16384 = Inr stuff"
    by (simp add: select_chain_type_window [OF window_16384])
  have s2: "select_chain_type (1669 + 14000 + 1000) 16384 = Inr map_reduce"
    by (simp add: select_chain_type_window [OF window_16384])
  from rule s1 s2 show ?thesis by blast
qed

lemma sum_A: "sum_list (map (\<lambda>c. tok_A (content c)) results_A) = 3529"
  by (simp add: results_A_def tok_A_def sum_list_replicate)

lemma config_A_fields:
  "num_tokens_from_string config_A = tok_A"
  "COMBINE_PROMPT_TEMPLATE config_A = ''TEMPLATE''"
  "COMPLETION_TOKENS config_A = 1000"
  "window_table config_A (MODEL config_A) = Some 16384"
  by (simp_all add: config_A_def)

lemma tok_A_template: "tok_A ''TEMPLATE'' = 1669"
  by (simp add: tok_A_def)

theorem selector_decision_rule_witness:
  "results_A \<noteq> [] \<and> window_table config_A (MODEL config_A) = Some 16384
   \<and> (0::int) \<le> 16384 \<and> (16384::int) < 2 ^ 49
   \<and> fst (cell_select config_A (make_top_docs config_A results_A) fresh_kernel) = None
   \<and> chain_type_var (snd (cell_select config_A (make_top_docs config_A results_A) fresh_kernel)) = Some stuff"
proof -
  have h1: "results_A \<noteq> []" by (simp add: results_A_def)
  from selector_decision_rule [OF h1 config_A_fields(4) window_16384, of fresh_kernel]
  show ?thesis using h1 by (simp add: config_A_fields sum_A tok_A_template)
qed

text \<open>
  Claim C4. With the configuration fixed (model, prompt template, completion tokens), if
  the selector chooses \<open>map_reduce\<close> for a candidate set, it chooses \<open>map_reduce\<close> for
  every candidate set whose token total is at least as large.
\<close>

theorem selection_monotone:
  assumes "docs1 \<noteq> []" and "docs2 \<noteq> []"
    and "num_tokens_from_docs (num_tokens_from_string cfg) docs1
           \<le> num_tokens_from_docs (num_tokens_from_string cfg) docs2"
    and "fst (cell_select cfg docs1 ker1) = None"
    and "chain_type_var (snd (cell_select cfg docs1 ker1)) = Some map_reduce"
  shows "fst (cell_select cfg docs2 ker2) = None
       \<and> chain_type_var (snd (cell_select cfg docs2 ker2)) = Some map_reduce"
proof -
  let ?p = "num_tokens_from_string cfg (COMBINE_PROMPT_TEMPLATE cfg)"
  let ?t1 = "num_tokens_from_docs (num_tokens_from_string cfg) docs1"
  let ?t2 = "num_tokens_from_docs (num_tokens_from_string cfg) docs2"
  let ?c = "COMPLETION_TOKENS cfg"
  from cell_select_returns [OF assms(1,4)] obtain w ct
    where w: "window_table cfg (MODEL cfg) = Some w"
      and s1: "select_chain_type (?p + ?t1 + ?c) w = Inr ct"
    by blast
  from cell_select_selected [OF assms(1) w s1, of ker1] assms(5)
  have ct: "ct = map_reduce" by simp
  from s1 obtain product where f: "float_0_9_times w = Inr product"
    by (cases "float_0_9_times w") (simp_all add: select_chain_type_def)
  from s1 ct f have "(?p + ?t1 + ?c) * 2 ^ 53 > product"
    by (simp add: select_chain_type_def split: if_splits)
  moreover have "(?p + ?t1 + ?c) * 2 ^ 53 \<le> (?p + ?t2 + ?c) * 2 ^ 53"
    using assms(3) by (intro mult_right_mono) simp_all
  ultimately have "(?p + ?t2 + ?c) * 2 ^ 53 > product" by linarith
  then have s2: "select_chain_type (?p + ?t2 + ?c) w = Inr map_reduce"
    using f by (simp add: select_chain_type_def)
  from cell_select_selected [OF assms(2) w s2, of ker2] show ?thesis by blast
qed

lemma tokens_14: "num_tokens_from_docs tok_A docs_14 = 14000"
  by (simp add: num_tokens_from_docs_def docs_14_def tok_A_def)

lemma tokens_15: "num_tokens_from_docs tok_A docs_15 = 15000"
  by (simp add: num_tokens_from_docs_def docs_15_def tok_A_def)

lemma select_14: "fst (cell_select config_A docs_14 fresh_kernel) = None
   \<and> chain_type_var (snd (cell_select config_A docs_14 fresh_kernel)) = Some map_reduce"
proof -
  have ne: "docs_14 \<noteq> []" by (simp add: docs_14_def)
  have s: "select_chain_type
             (num_tokens_from_string config_A (COMBINE_PROMPT_TEMPLATE config_A)
              + num_tokens_from_docs (num_tokens_from_string config_A) docs_14
              + COMPLETION_TOKENS config_A) 16384 = Inr map_reduce"
    by (simp add: config_A_fields tokens_14 tok_A_template select_chain_type_window [OF window_16384])
  from cell_select_selected [OF ne config_A_fields(4) s, of fresh_kernel]
  show ?thesis by blast
qed

theorem selection_monotone_witness:
  "docs_14 \<noteq> [] \<and> docs_15 \<noteq> []
   \<and> num_tokens_from_docs (num_tokens_from_string config_A) docs_14
       \<le> num_tokens_from_docs (num_tokens_from_string config_A) docs_15
   \<and> fst (cell_select config_A docs_14 fresh_kernel) = None
   \<and> chain_type_var (snd (cell_select config_A docs_14 fresh_kernel)) = Some map_reduce
   \<and> fst (cell_select config_A docs_15 fresh_kernel) = None
   \<and> chain_type_var (snd (cell_select config_A docs_15 fresh_kernel)) = Some map_reduce"
proof -
  have h1: "docs_14 \<noteq> []" by (simp add: docs_14_def)
  have h2: "docs_15 \<noteq> []" by (simp add: docs_15_def)
  have h3: "num_tokens_from_docs (num_tokens_from_string config_A) docs_14
       \<le> num_tokens_from_docs (num_tokens_from_string config_A) docs_15"
    by (simp add: config_A_fields tokens_14 tokens_15)
  from selection_monotone [OF h1 h2 h3 select_14 [THEN conjunct1] select_14 [THEN conjunct2], of fresh_kernel]
  show ?thesis using h1 h2 h3 select_14 by simp
qed

section \<open>The empty candidate set\<close>

lemma str_0: "str 0 = ''0''"
  by code_simp

lemma run_empty_fresh:
  "run_query_cells cfg run_chain [] QUESTION fresh_kernel
     = (Some (NameError ''chain_type''),
        print ''NO RESULTS FROM AZURE SEARCH'' (print ''Number of chunks: 0'' fresh_kernel))"
  by (simp add: run_query_cells_def cell_top_docs_def make_top_docs_def cell_select_empty
      then_cell_def cell_load_chain_def chain_type_var_print fresh_kernel_def str_0 Let_def)

lemma run_empty_reused:
  assumes "chain_type_var ker = Some ct"
  shows "chain_calls (snd (run_query_cells cfg run_chain [] QUESTION ker)) = chain_calls ker @ [(ct, [])]"
  using assms
  by (cases ct; cases "run_chain ct [] QUESTION")
     (simp_all add: run_query_cells_def cell_top_docs_def make_top_docs_def cell_select_empty
      then_cell_def cell_load_chain_def cell_invoke_def chain_type_var_print chain_calls_print Let_def)

lemma first_query_A:
  "fst (run_query_cells config_A answer_A results_A q fresh_kernel) = None
   \<and> chain_type_var (snd (run_query_cells config_A answer_A results_A q fresh_kernel)) = Some stuff
   \<and> chain_calls (snd (run_query_cells config_A answer_A results_A q fresh_kernel))
       = [(stuff, make_top_docs config_A results_A)]"
proof -
  let ?docs = "make_top_docs config_A results_A"
  let ?k0 = "print (''Number of chunks: '' @ str (int (length ?docs))) fresh_kernel"
  let ?r = "cell_select config_A ?docs ?k0"
  have ne: "?docs \<noteq> []"
    using length_make_top_docs [of config_A results_A] by (auto simp: results_A_def)
  have s: "select_chain_type
             (num_tokens_from_string config_A (COMBINE_PROMPT_TEMPLATE config_A)
              + num_tokens_from_docs (num_tokens_from_string config_A) ?docs
              + COMPLETION_TOKENS config_A) 16384 = Inr stuff"
    by (simp add: config_A_fields num_tokens_make_top_docs sum_A tok_A_template
        select_chain_type_window [OF window_16384])
  have k0: "chain_calls ?k0 = []" by (simp add: chain_calls_print fresh_kernel_def)
  from cell_select_selected [OF ne config_A_fields(4) s, of ?k0] k0
  have sel: "fst ?r = None" "chain_type_var (snd ?r) = Some stuff" "chain_calls (snd ?r) = []"
    by simp_all
  show ?thesis
    using sel
    by (simp add: run_query_cells_def cell_top_docs_def then_cell_def cell_load_chain_def
        cell_invoke_def answer_A_def Let_def)
qed

text \<open>
  Claim C2, evaluated on the code. With no candidates the selector cell prints
  \<open>NO RESULTS FROM AZURE SEARCH\<close> and binds nothing; the cells that load and call the
  chain are not under that condition. In a fresh kernel the run ends in
  \<open>NameError\<close> on \<open>chain_type\<close>, so no outcome is returned. In a kernel that has
  answered an earlier question, \<open>chain_type\<close> is still bound, and the chain is called
  with the empty list of documents.
\<close>

theorem empty_candidates_reach_the_chain:
  "run_query_cells config_A answer_A [] ''q2'' fresh_kernel
     = (Some (NameError ''chain_type''),
        print ''NO RESULTS FROM AZURE SEARCH'' (print ''Number of chunks: 0'' fresh_kernel))
   \<and> chain_calls (snd (run_query_cells config_A answer_A [] ''q2''
                        (snd (run_query_cells config_A answer_A results_A ''q1'' fresh_kernel))))
     = [(stuff, make_top_docs config_A results_A), (stuff, [])]"
  using first_query_A [of "''q1''"]
    run_empty_reused [of "snd (run_query_cells config_A answer_A results_A ''q1'' fresh_kernel)" stuff config_A answer_A "''q2''"]
  by (simp add: run_empty_fresh)

section \<open>Properties of token counting\<close>

lemma num_tokens_sum:
  "num_tokens_from_docs tok docs = sum_list (map (\<lambda>d. tok (page_content d)) docs)"
  by (simp add: num_tokens_from_docs_def count_loop_sum)

lemma num_tokens_mset:
  "num_tokens_from_docs tok docs = sum_mset (image_mset (\<lambda>d. tok (page_content d)) (mset docs))"
  by (simp add: num_tokens_sum sum_mset_sum_list [symmetric])

lemma num_tokens_concat:
  "num_tokens_from_docs tok (concat parts) = sum_list (map (num_tokens_from_docs tok) parts)"
  by (induction parts) (simp_all add: num_tokens_sum)

text \<open>
  Claim C7. The token count of a collection is the sum of the counts of the parts of any
  partition of it (parts given in any order, documents within them in any order), it is
  the sum of the counts of its documents taken one by one, and it is the same for every
  permutation of the collection.
\<close>

theorem token_count_additive:
  assumes "mset (concat parts) = mset docs"
  shows "num_tokens_from_docs tok docs = sum_list (map (num_tokens_from_docs tok) parts)
       \<and> num_tokens_from_docs tok docs = sum_list (map (\<lambda>d. num_tokens_from_docs tok [d]) docs)
       \<and> (\<forall>docs'. mset docs' = mset docs \<longrightarrow> num_tokens_from_docs tok docs' = num_tokens_from_docs tok docs)"
proof -
  have "num_tokens_from_docs tok docs = num_tokens_from_docs tok (concat parts)"
    using assms by (simp add: num_tokens_mset)
  then have a: "num_tokens_from_docs tok docs = sum_list (map (num_tokens_from_docs tok) parts)"
    by (simp add: num_tokens_concat)
  have b: "num_tokens_from_docs tok docs = sum_list (map (\<lambda>d. num_tokens_from_docs tok [d]) docs)"
    by (simp add: num_tokens_sum)
  have c: "\<forall>docs'. mset docs' = mset docs \<longrightarrow> num_tokens_from_docs tok docs' = num_tokens_from_docs tok docs"
    by (simp add: num_tokens_mset)
  from a b c show ?thesis by blast
qed

theorem token_count_additive_witness:
  "mset (concat [[docs_15 ! 1], docs_14, [docs_15 ! 0]]) = mset (docs_15 @ docs_14)
   \<and> num_tokens_from_docs tok_A (docs_15 @ docs_14) = 29000
   \<and> sum_list (map (num_tokens_from_docs tok_A) [[docs_15 ! 1], docs_14, [docs_15 ! 0]]) = 29000
   \<and> num_tokens_from_docs tok_A (docs_14 @ docs_15) = 29000"
proof -
  let ?parts = "[[docs_15 ! 1], docs_14, [docs_15 ! 0]]"
  have h: "mset (concat ?parts) = mset (docs_15 @ docs_14)"
    by (simp add: docs_14_def docs_15_def)
  have v: "num_tokens_from_docs tok_A (docs_15 @ docs_14) = 29000"
    by (simp add: num_tokens_from_docs_def docs_14_def docs_15_def tok_A_def)
  have p: "mset (docs_14 @ docs_15) = mset (docs_15 @ docs_14)"
    by (simp add: add.commute)
  note r = token_count_additive [OF h, of tok_A]
  from r have r1: "num_tokens_from_docs tok_A (docs_15 @ docs_14)
                     = sum_list (map (num_tokens_from_docs tok_A) ?parts)"
    by blast
  from r have r3: "\<forall>docs'. mset docs' = mset (docs_15 @ docs_14) \<longrightarrow>
                     num_tokens_from_docs tok_A docs' = num_tokens_from_docs tok_A (docs_15 @ docs_14)"
    by blast
  from r3 p have r3': "num_tokens_from_docs tok_A (docs_14 @ docs_15)
                     = num_tokens_from_docs tok_A (docs_15 @ docs_14)"
    by blast
  show ?thesis
    using h v r1 r3' by (simp only: simp_thms)
qed

section \<open>Properties of the upload loop\<close>

lemma upload_page_embed_raises:
  assumes "fst (embed_query svc (if page_text \<noteq> [] then page_text else ''-------'') (world st)) = Inl e"
  shows "upload_page svc bookname (n, offset, page_text) st
           = (Raised e,
              st\<lparr>world := snd (embed_query svc (if page_text \<noteq> [] then page_text else ''-------'') (world st)),
                 console := console st @ [''Exception: '' @ exn_message e, page_text],
                 embed_log := embed_log st @ [if page_text \<noteq> [] then page_text else ''-------'']\<rparr>)"
  using assms by (simp add: upload_page_def Let_def)

lemma upload_page_embedded:
  assumes "fst (embed_query svc (if page_text \<noteq> [] then page_text else ''-------'') (world st)) = Inr vec"
  shows "upload_page svc bookname (n, offset, page_text) st
           = (case fst (post svc (search_document svc bookname (n + 1) page_text vec)
                          (snd (embed_query svc (if page_text \<noteq> [] then page_text else ''-------'') (world st)))) of
                Inl e \<Rightarrow>
                  (Raised e,
                   st\<lparr>world := snd (post svc (search_document svc bookname (n + 1) page_text vec)
                                      (snd (embed_query svc (if page_text \<noteq> [] then page_text else ''-------'') (world st)))),
                      console := console st @ [''Exception: '' @ exn_message e, page_text],
                      embed_log := embed_log st @ [if page_text \<noteq> [] then page_text else ''-------'']\<rparr>)
              | Inr resp \<Rightarrow>
                  if status_code resp \<noteq> 200
                  then (Rejected (search_document svc bookname (n + 1) page_text vec) resp,
                        st\<lparr>world := snd (post svc (search_document svc bookname (n + 1) page_text vec)
                                      (snd (embed_query svc (if page_text \<noteq> [] then page_text else ''-------'') (world st)))),
                           console := console st @ [str (status_code resp), body resp],
                           embed_log := embed_log st @ [if page_text \<noteq> [] then page_text else ''-------'']\<rparr>)
                  else (Uploaded (search_document svc bookname (n + 1) page_text vec),
                        st\<lparr>world := snd (post svc (search_document svc bookname (n + 1) page_text vec)
                                      (snd (embed_query svc (if page_text \<noteq> [] then page_text else ''-------'') (world st)))),
                           embed_log := embed_log st @ [if page_text \<noteq> [] then page_text else ''-------'']\<rparr>))"
  using assms by (simp add: upload_page_def Let_def search_document_def split: sum.splits)

lemma embed_log_upload_page:
  "embed_log (snd (upload_page svc b page st))
     = embed_log st @ [if snd (snd page) \<noteq> [] then snd (snd page) else ''-------'']"
  by (simp add: upload_page_def Let_def split: sum.splits)

lemma upload_pages_append:
  "upload_pages svc b (before @ after) st =
     (let r1 = upload_pages svc b before st; r2 = upload_pages svc b after (snd r1)
      in (fst r1 @ fst r2, snd r2))"
  by (induction before arbitrary: st) (simp_all add: Let_def)

lemma length_upload_pages: "length (fst (upload_pages svc b pages st)) = length pages"
  by (induction pages arbitrary: st) (simp_all add: Let_def)

lemma embed_log_upload_pages:
  "embed_log (snd (upload_pages svc b pages st))
     = embed_log st @ map (\<lambda>page. if snd (snd page) \<noteq> [] then snd (snd page) else ''-------'') pages"
  by (induction pages arbitrary: st) (simp_all add: Let_def embed_log_upload_page)

lemma books_names: "map fst (fst (upload_books svc books st)) = map fst books"
  by (induction svc books st rule: upload_books.induct) (simp_all add: Let_def)

lemma books_lengths:
  "map (\<lambda>r. length (snd r)) (fst (upload_books svc books st)) = map (\<lambda>bk. length (snd bk)) books"
  by (induction svc books st rule: upload_books.induct) (simp_all add: Let_def length_upload_pages)

lemma embed_log_upload_books:
  "embed_log (snd (upload_books svc books st))
     = embed_log st @ map (\<lambda>page. if snd (snd page) \<noteq> [] then snd (snd page) else ''-------'')
                         (concat (map snd books))"
  by (induction svc books st rule: upload_books.induct) (simp_all add: Let_def embed_log_upload_pages)

lemma upload_books_append:
  "upload_books svc (xs @ ys) s =
      (let r1 = upload_books svc xs s; r2 = upload_books svc ys (snd r1) in (fst r1 @ fst r2, snd r2))"
  by (induction svc xs s rule: upload_books.induct) (simp_all add: Let_def)

text \<open>
  Claim C8. Whatever the embedding and search services do, the upload loop visits every
  book and gives every page of every book exactly one outcome, and the embedder is called
  once for each page of each book, in order. A page in the middle of a book, whatever its
  outcome, is followed by the pages after it, run from the state it left; a book in the
  middle of the map is followed by the books after it. For one page: if the embedder
  raises, the outcome is that exception and the exception and the page text are printed;
  if the search service raises on the page's document, the same; if it answers with a
  status other than 200, the page is rejected and the status and the response text are
  printed; if it answers 200, the page is uploaded and nothing is printed.
\<close>

theorem upload_continues_after_failures:
  "map fst (fst (upload_books svc book_pages_map st)) = map fst book_pages_map
   \<and> map (\<lambda>r. length (snd r)) (fst (upload_books svc book_pages_map st))
       = map (\<lambda>bk. length (snd bk)) book_pages_map
   \<and> embed_log (snd (upload_books svc book_pages_map st))
       = embed_log st @ map (\<lambda>page. if snd (snd page) \<noteq> [] then snd (snd page) else ''-------'')
                           (concat (map snd book_pages_map))
   \<and> upload_pages svc bookname (before @ page # after) st
       = (let r1 = upload_pages svc bookname before st;
              r = upload_page svc bookname page (snd r1);
              r2 = upload_pages svc bookname after (snd r)
          in (fst r1 @ fst r # fst r2, snd r2))
   \<and> upload_books svc (finished @ (bookname, bookmap) # todo) st
       = (let r1 = upload_books svc finished st;
              r = upload_books svc [(bookname, bookmap)] (snd r1);
              r2 = upload_books svc todo (snd r)
          in (fst r1 @ fst r @ fst r2, snd r2))
   \<and> (\<forall>e. fst (embed_query svc (if page_text \<noteq> [] then page_text else ''-------'') (world st)) = Inl e
          \<longrightarrow> fst (upload_page svc bookname (n, offset, page_text) st) = Raised e
            \<and> console (snd (upload_page svc bookname (n, offset, page_text) st))
                = console st @ [''Exception: '' @ exn_message e, page_text])
   \<and> (\<forall>vec e. fst (embed_query svc (if page_text \<noteq> [] then page_text else ''-------'') (world st)) = Inr vec
            \<and> fst (post svc (search_document svc bookname (n + 1) page_text vec)
                     (snd (embed_query svc (if page_text \<noteq> [] then page_text else ''-------'') (world st)))) = Inl e
          \<longrightarrow> fst (upload_page svc bookname (n, offset, page_text) st) = Raised e
            \<and> console (snd (upload_page svc bookname (n, offset, page_text) st))
                = console st @ [''Exception: '' @ exn_message e, page_text])
   \<and> (\<forall>vec resp. fst (embed_query svc (if page_text \<noteq> [] then page_text else ''-------'') (world st)) = Inr vec
            \<and> fst (post svc (search_document svc bookname (n + 1) page_text vec)
                     (snd (embed_query svc (if page_text \<noteq> [] then page_text else ''-------'') (world st)))) = Inr resp
            \<and> status_code resp \<noteq> 200
          \<longrightarrow> fst (upload_page svc bookname (n, offset, page_text) st)
                = Rejected (search_document svc bookname (n + 1) page_text vec) resp
            \<and> console (snd (upload_page svc bookname (n, offset, page_text) st))
                = console st @ [str (status_code resp), body resp])
   \<and> (\<forall>vec resp. fst (embed_query svc (if page_text \<noteq> [] then page_text else ''-------'') (world st)) = Inr vec
            \<and> fst (post svc (search_document svc bookname (n + 1) page_text vec)
                     (snd (embed_query svc (if page_text \<noteq> [] then page_text else ''-------'') (world st)))) = Inr resp
            \<and> status_code resp = 200
          \<longrightarrow> fst (upload_page svc bookname (n, offset, page_text) st)
                = Uploaded (search_document svc bookname (n + 1) page_text vec)
            \<and> console (snd (upload_page svc bookname (n, offset, page_text) st)) = console st)"
proof -
  have a: "upload_pages svc bookname (before @ page # after) st
       = (let r1 = upload_pages svc bookname before st;
              r = upload_page svc bookname page (snd r1);
              r2 = upload_pages svc bookname after (snd r)
          in (fst r1 @ fst r # fst r2, snd r2))"
    by (simp add: upload_pages_append Let_def)
  have b: "upload_books svc (finished @ (bookname, bookmap) # todo) st
       = (let r1 = upload_books svc finished st;
              r = upload_books svc [(bookname, bookmap)] (snd r1);
              r2 = upload_books svc todo (snd r)
          in (fst r1 @ fst r @ fst r2, snd r2))"
    by (simp add: upload_books_append Let_def)
  have c: "\<forall>e. fst (embed_query svc (if page_text \<noteq> [] then page_text else ''-------'') (world st)) = Inl e
          \<longrightarrow> fst (upload_page svc bookname (n, offset, page_text) st) = Raised e
            \<and> console (snd (upload_page svc bookname (n, offset, page_text) st))
                = console st @ [''Exception: '' @ exn_message e, page_text]"
    by (simp add: upload_page_embed_raises)
  have d: "\<forall>vec e. fst (embed_query svc (if page_text \<noteq> [] then page_text else ''-------'') (world st)) = Inr vec
            \<and> fst (post svc (search_document svc bookname (n + 1) page_text vec)
                     (snd (embed_query svc (if page_text \<noteq> [] then page_text else ''-------'') (world st)))) = Inl e
          \<longrightarrow> fst (upload_page svc bookname (n, offset, page_text) st) = Raised e
            \<and> console (snd (upload_page svc bookname (n, offset, page_text) st))
                = console st @ [''Exception: '' @ exn_message e, page_text]"
    by (simp add: upload_page_embedded)
  have e: "\<forall>vec resp. fst (embed_query svc (if page_text \<noteq> [] then page_text else ''-------'') (world st)) = Inr vec
            \<and> fst (post svc (search_document svc bookname (n + 1) page_text vec)
                     (snd (embed_query svc (if page_text \<noteq> [] then page_text else ''-------'') (world st)))) = Inr resp
            \<and> status_code resp \<noteq> 200
          \<longrightarrow> fst (upload_page svc bookname (n, offset, page_text) st)
                = Rejected (search_document svc bookname (n + 1) page_text vec) resp
            \<and> console (snd (upload_page svc bookname (n, offset, page_text) st))
                = console st @ [str (status_code resp), body resp]"
    by (simp add: upload_page_embedded)
  have f: "\<forall>vec resp. fst (embed_query svc (if page_text \<noteq> [] then page_text else ''-------'') (world st)) = Inr vec
            \<and> fst (post svc (search_document svc bookname (n + 1) page_text vec)
                     (snd (embed_query svc (if page_text \<noteq> [] then page_text else ''-------'') (world st)))) = Inr resp
            \<and> status_code resp = 200
          \<longrightarrow> fst (upload_page svc bookname (n, offset, page_text) st)
                = Uploaded (search_document svc bookname (n + 1) page_text vec)
            \<and> console (snd (upload_page svc bookname (n, offset, page_text) st)) = console st"
    by (simp add: upload_page_embedded)
  from books_names [of svc book_pages_map st] books_lengths [of svc book_pages_map st]
    embed_log_upload_books [of svc book_pages_map st] a b c d e f
  show ?thesis by (intro conjI)
qed

lemma str_413: "str 413 = ''413''"
  by code_simp

lemma str_500: "str 500 = ''500''"
  by code_simp

lemma books_B_run:
  "fst (upload_books services_B books_B start_B)
     = [(''a.pdf'', [Raised (ServiceError ''rate limit''),
                     Uploaded (search_document services_B ''a.pdf'' 2 [] [7]),
                     Uploaded (search_document services_B ''a.pdf'' 3 ''fine'' [4])]),
        (''b.pdf'', [Rejected (search_document services_B ''b.pdf'' 1 ''too big'' [7])
                       \<lparr>status_code = 413, body = ''too large''\<rparr>,
                     Raised (ServiceError ''connection reset''),
                     Rejected (search_document services_B ''b.pdf'' 3 ''fail'' [4])
                       \<lparr>status_code = 500, body = ''server error''\<rparr>,
                     Uploaded (search_document services_B ''b.pdf'' 4 ''ok'' [2])])]
   \<and> console (snd (upload_books services_B books_B start_B))
     = [''Uploading chunks from a.pdf'', ''Exception: rate limit'', ''boom'',
        ''Uploading chunks from b.pdf'', ''413'', ''too large'',
        ''Exception: connection reset'', ''drop'', ''500'', ''server error'']"
  by (simp add: books_B_def services_B_def start_B_def upload_page_def Let_def embed_B_def
      post_B_def search_document_def exn_message_def str_413 str_500)

lemma embed_B_boom:
  "fst (embed_query services_B (if ''boom'' \<noteq> [] then ''boom'' else ''-------'') (world start_B))
     = Inl (ServiceError ''rate limit'')"
  by (simp add: services_B_def embed_B_def)

lemma post_B_drop:
  "fst (embed_query services_B (if ''drop'' \<noteq> [] then ''drop'' else ''-------'') (world start_B)) = Inr [4]
   \<and> fst (post services_B (search_document services_B ''b.pdf'' (1 + 1) ''drop'' [4])
            (snd (embed_query services_B (if ''drop'' \<noteq> [] then ''drop'' else ''-------'') (world start_B))))
       = Inl (ServiceError ''connection reset'')"
  by (simp add: services_B_def embed_B_def post_B_def search_document_def)

lemma post_B_fail:
  "fst (embed_query services_B (if ''fail'' \<noteq> [] then ''fail'' else ''-------'') (world start_B)) = Inr [4]
   \<and> fst (post services_B (search_document services_B ''b.pdf'' (2 + 1) ''fail'' [4])
            (snd (embed_query services_B (if ''fail'' \<noteq> [] then ''fail'' else ''-------'') (world start_B))))
       = Inr \<lparr>status_code = 500, body = ''server error''\<rparr>
   \<and> status_code \<lparr>status_code = 500, body = ''server error''\<rparr> \<noteq> 200"
  by (simp add: services_B_def embed_B_def post_B_def search_document_def)

lemma post_B_ok:
  "fst (embed_query services_B (if ''ok'' \<noteq> [] then ''ok'' else ''-------'') (world start_B)) = Inr [2]
   \<and> fst (post services_B (search_document services_B ''b.pdf'' (3 + 1) ''ok'' [2])
            (snd (embed_query services_B (if ''ok'' \<noteq> [] then ''ok'' else ''-------'') (world start_B))))
       = Inr \<lparr>status_code = 200, body = []\<rparr>
   \<and> status_code \<lparr>status_code = 200, body = []\<rparr> = 200"
  by (simp add: services_B_def embed_B_def post_B_def search_document_def)

theorem upload_continues_after_failures_witness:
  "fst (embed_query services_B (if ''boom'' \<noteq> [] then ''boom'' else ''-------'') (world start_B))
     = Inl (ServiceError ''rate limit'')
   \<and> fst (upload_page services_B ''a.pdf'' (0, 0, ''boom'') start_B) = Raised (ServiceError ''rate limit'')
   \<and> console (snd (upload_page services_B ''a.pdf'' (0, 0, ''boom'') start_B))
       = console start_B @ [''Exception: '' @ exn_message (ServiceError ''rate limit''), ''boom'']
   \<and> fst (post services_B (search_document services_B ''b.pdf'' (1 + 1) ''drop'' [4])
            (snd (embed_query services_B (if ''drop'' \<noteq> [] then ''drop'' else ''-------'') (world start_B))))
       = Inl (ServiceError ''connection reset'')
   \<and> fst (upload_page services_B ''b.pdf'' (1, 7, ''drop'') start_B) = Raised (ServiceError ''connection reset'')
   \<and> console (snd (upload_page services_B ''b.pdf'' (1, 7, ''drop'') start_B))
       = console start_B @ [''Exception: '' @ exn_message (ServiceError ''connection reset''), ''drop'']
   \<and> fst (post services_B (search_document services_B ''b.pdf'' (2 + 1) ''fail'' [4])
            (snd (embed_query services_B (if ''fail'' \<noteq> [] then ''fail'' else ''-------'') (world start_B))))
       = Inr \<lparr>status_code = 500, body = ''server error''\<rparr>
   \<and> fst (upload_page services_B ''b.pdf'' (2, 11, ''fail'') start_B)
       = Rejected (search_document services_B ''b.pdf'' (2 + 1) ''fail'' [4])
           \<lparr>status_code = 500, body = ''server error''\<rparr>
   \<and> console (snd (upload_page services_B ''b.pdf'' (2, 11, ''fail'') start_B))
       = console start_B @ [str (status_code \<lparr>status_code = 500, body = ''server error''\<rparr>),
                            body \<lparr>status_code = 500, body = ''server error''\<rparr>]
   \<and> fst (upload_page services_B ''b.pdf'' (3, 15, ''ok'') start_B)
       = Uploaded (search_document services_B ''b.pdf'' (3 + 1) ''ok'' [2])
   \<and> console (snd (upload_page services_B ''b.pdf'' (3, 15, ''ok'') start_B)) = console start_B
   \<and> map fst (fst (upload_books services_B books_B start_B)) = map fst books_B
   \<and> map (\<lambda>r. length (snd r)) (fst (upload_books services_B books_B start_B)) = [3, 4]
   \<and> fst (upload_books services_B books_B start_B)
     = [(''a.pdf'', [Raised (ServiceError ''rate limit''),
                     Uploaded (search_document services_B ''a.pdf'' 2 [] [7]),
                     Uploaded (search_document services_B ''a.pdf'' 3 ''fine'' [4])]),
        (''b.pdf'', [Rejected (search_document services_B ''b.pdf'' 1 ''too big'' [7])
                       \<lparr>status_code = 413, body = ''too large''\<rparr>,
                     Raised (ServiceError ''connection reset''),
                     Rejected (search_document services_B ''b.pdf'' 3 ''fail'' [4])
                       \<lparr>status_code = 500, body = ''server error''\<rparr>,
                     Uploaded (search_document services_B ''b.pdf'' 4 ''ok'' [2])])]
   \<and> console (snd (upload_books services_B books_B start_B))
     = [''Uploading chunks from a.pdf'', ''Exception: rate limit'', ''boom'',
        ''Uploading chunks from b.pdf'', ''413'', ''too large'',
        ''Exception: connection reset'', ''drop'', ''500'', ''server error'']"
proof -
  note boom = upload_continues_after_failures
    [where svc = services_B and st = start_B and bookname = "''a.pdf''" and n = 0 and offset = 0
       and page_text = "''boom''" and book_pages_map = books_B]
  note drop = upload_continues_after_failures
    [where svc = services_B and st = start_B and bookname = "''b.pdf''" and n = 1 and offset = 7
       and page_text = "''drop''"]
  note fail = upload_continues_after_failures
    [where svc = services_B and st = start_B and bookname = "''b.pdf''" and n = 2 and offset = 11
       and page_text = "''fail''"]
  note ok = upload_continues_after_failures
    [where svc = services_B and st = start_B and bookname = "''b.pdf''" and n = 3 and offset = 15
       and page_text = "''ok''"]
  from boom embed_B_boom
  have r1: "fst (upload_page services_B ''a.pdf'' (0, 0, ''boom'') start_B) = Raised (ServiceError ''rate limit'')
      \<and> console (snd (upload_page services_B ''a.pdf'' (0, 0, ''boom'') start_B))
       = console start_B @ [''Exception: '' @ exn_message (ServiceError ''rate limit''), ''boom'']"
    by blast
  from boom have r0: "map fst (fst (upload_books services_B books_B start_B)) = map fst books_B
      \<and> map (\<lambda>r. length (snd r)) (fst (upload_books services_B books_B start_B))
          = map (\<lambda>bk. length (snd bk)) books_B"
    by blast
  from drop post_B_drop
  have r2: "fst (upload_page services_B ''b.pdf'' (1, 7, ''drop'') start_B) = Raised (ServiceError ''connection reset'')
      \<and> console (snd (upload_page services_B ''b.pdf'' (1, 7, ''drop'') start_B))
       = console start_B @ [''Exception: '' @ exn_message (ServiceError ''connection reset''), ''drop'']"
    by blast
  from fail post_B_fail
  have r3: "fst (upload_page services_B ''b.pdf'' (2, 11, ''fail'') start_B)
       = Rejected (search_document services_B ''b.pdf'' (2 + 1) ''fail'' [4])
           \<lparr>status_code = 500, body = ''server error''\<rparr>
      \<and> console (snd (upload_page services_B ''b.pdf'' (2, 11, ''fail'') start_B))
       = console start_B @ [str (status_code \<lparr>status_code = 500, body = ''server error''\<rparr>),
                            body \<lparr>status_code = 500, body = ''server error''\<rparr>]"
    by blast
  from ok post_B_ok
  have r4: "fst (upload_page services_B ''b.pdf'' (3, 15, ''ok'') start_B)
       = Uploaded (search_document services_B ''b.pdf'' (3 + 1) ''ok'' [2])
      \<and> console (snd (upload_page services_B ''b.pdf'' (3, 15, ''ok'') start_B)) = console start_B"
    by blast
  have l: "map (\<lambda>bk. length (snd bk)) books_B = [3, 4]" by (simp add: books_B_def)
  from r0 r1 r2 r3 r4 embed_B_boom post_B_drop post_B_fail books_B_run show ?thesis
    unfolding l by blast
qed

lemma world_upload_page_embedded:
  assumes "fst (embed_query svc (if page_text \<noteq> [] then page_text else ''-------'') (world st)) = Inr vec"
  shows "world (snd (upload_page svc bookname (n, offset, page_text) st))
           = snd (post svc (search_document svc bookname (n + 1) page_text vec)
                   (snd (embed_query svc (if page_text \<noteq> [] then page_text else ''-------'') (world st))))
       \<and> fst (upload_page svc bookname (n, offset, page_text) st)
           = (case fst (post svc (search_document svc bookname (n + 1) page_text vec)
                          (snd (embed_query svc (if page_text \<noteq> [] then page_text else ''-------'') (world st)))) of
                Inl e \<Rightarrow> Raised e
              | Inr resp \<Rightarrow> if status_code resp \<noteq> 200
                            then Rejected (search_document svc bookname (n + 1) page_text vec) resp
                            else Uploaded (search_document svc bookname (n + 1) page_text vec))"
  by (simp add: upload_page_embedded [OF assms] split: sum.splits)

lemma world_upload_page_embed_raises:
  assumes "fst (embed_query svc (if page_text \<noteq> [] then page_text else ''-------'') (world st)) = Inl e"
  shows "world (snd (upload_page svc bookname (n, offset, page_text) st))
           = snd (embed_query svc (if page_text \<noteq> [] then page_text else ''-------'') (world st))"
  by (simp add: upload_page_embed_raises [OF assms])

text \<open>
  Claim C9. The embedder is never called with the empty string: the arguments of its calls
  during the loop are, page by page, the page text, or \<open>-------\<close> where the text is
  empty. If the embedder raises, the search service is not called. If it returns a
  vector, the search service is called once, with the document whose chunk is the page
  text unchanged and whose vector is the one returned. For a page with empty text the
  document handed to the search service has the empty chunk and, as its vector, what
  the embedder returned for \<open>-------\<close>.
\<close>

theorem placeholder_for_empty_text:
  "[] \<notin> set (map (\<lambda>page. if snd (snd page) \<noteq> [] then snd (snd page) else ''-------'')
                  (concat (map snd book_pages_map)))
   \<and> embed_log (snd (upload_books svc book_pages_map st))
       = embed_log st @ map (\<lambda>page. if snd (snd page) \<noteq> [] then snd (snd page) else ''-------'')
                           (concat (map snd book_pages_map))
   \<and> (\<forall>e. fst (embed_query svc (if page_text \<noteq> [] then page_text else ''-------'') (world st)) = Inl e
          \<longrightarrow> world (snd (upload_page svc bookname (n, offset, page_text) st))
                = snd (embed_query svc (if page_text \<noteq> [] then page_text else ''-------'') (world st)))
   \<and> (\<forall>vec. fst (embed_query svc (if page_text \<noteq> [] then page_text else ''-------'') (world st)) = Inr vec
          \<longrightarrow> world (snd (upload_page svc bookname (n, offset, page_text) st))
                = snd (post svc (search_document svc bookname (n + 1) page_text vec)
                        (snd (embed_query svc (if page_text \<noteq> [] then page_text else ''-------'') (world st))))
            \<and> fst (upload_page svc bookname (n, offset, page_text) st)
                = (case fst (post svc (search_document svc bookname (n + 1) page_text vec)
                               (snd (embed_query svc (if page_text \<noteq> [] then page_text else ''-------'') (world st)))) of
                     Inl e \<Rightarrow> Raised e
                   | Inr resp \<Rightarrow> if status_code resp \<noteq> 200
                                 then Rejected (search_document svc bookname (n + 1) page_text vec) resp
                                 else Uploaded (search_document svc bookname (n + 1) page_text vec))
            \<and> chunk (search_document svc bookname (n + 1) page_text vec) = page_text
            \<and> chunkVector (search_document svc bookname (n + 1) page_text vec) = vec)
   \<and> (\<forall>vec. fst (embed_query svc ''-------'' (world st)) = Inr vec
          \<longrightarrow> world (snd (upload_page svc bookname (n, offset, []) st))
                = snd (post svc (search_document svc bookname (n + 1) [] vec)
                        (snd (embed_query svc ''-------'' (world st))))
            \<and> chunk (search_document svc bookname (n + 1) [] vec) = []
            \<and> chunkVector (search_document svc bookname (n + 1) [] vec) = vec)"
proof -
  have a: "[] \<notin> set (map (\<lambda>page. if snd (snd page) \<noteq> [] then snd (snd page) else ''-------'')
                  (concat (map snd book_pages_map)))"
    by auto
  have c: "\<forall>e. fst (embed_query svc (if page_text \<noteq> [] then page_text else ''-------'') (world st)) = Inl e
          \<longrightarrow> world (snd (upload_page svc bookname (n, offset, page_text) st))
                = snd (embed_query svc (if page_text \<noteq> [] then page_text else ''-------'') (world st))"
    using world_upload_page_embed_raises [of svc page_text st _ bookname n offset] by blast
  have d: "\<forall>vec. fst (embed_query svc (if page_text \<noteq> [] then page_text else ''-------'') (world st)) = Inr vec
          \<longrightarrow> world (snd (upload_page svc bookname (n, offset, page_text) st))
                = snd (post svc (search_document svc bookname (n + 1) page_text vec)
                        (snd (embed_query svc (if page_text \<noteq> [] then page_text else ''-------'') (world st))))
            \<and> fst (upload_page svc bookname (n, offset, page_text) st)
                = (case fst (post svc (search_document svc bookname (n + 1) page_text vec)
                               (snd (embed_query svc (if page_text \<noteq> [] then page_text else ''-------'') (world st)))) of
                     Inl e \<Rightarrow> Raised e
                   | Inr resp \<Rightarrow> if status_code resp \<noteq> 200
                                 then Rejected (search_document svc bookname (n + 1) page_text vec) resp
                                 else Uploaded (search_document svc bookname (n + 1) page_text vec))
            \<and> chunk (search_document svc bookname (n + 1) page_text vec) = page_text
            \<and> chunkVector (search_document svc bookname (n + 1) page_text vec) = vec"
  proof (intro allI impI)
    fix vec
    assume h: "fst (embed_query svc (if page_text \<noteq> [] then page_text else ''-------'') (world st)) = Inr vec"
    from world_upload_page_embedded [OF h, of bookname n offset]
    show "world (snd (upload_page svc bookname (n, offset, page_text) st))
                = snd (post svc (search_document svc bookname (n + 1) page_text vec)
                        (snd (embed_query svc (if page_text \<noteq> [] then page_text else ''-------'') (world st))))
            \<and> fst (upload_page svc bookname (n, offset, page_text) st)
                = (case fst (post svc (search_document svc bookname (n + 1) page_text vec)
                               (snd (embed_query svc (if page_text \<noteq> [] then page_text else ''-------'') (world st)))) of
                     Inl e \<Rightarrow> Raised e
                   | Inr resp \<Rightarrow> if status_code resp \<noteq> 200
                                 then Rejected (search_document svc bookname (n + 1) page_text vec) resp
                                 else Uploaded (search_document svc bookname (n + 1) page_text vec))
            \<and> chunk (search_document svc bookname (n + 1) page_text vec) = page_text
            \<and> chunkVector (search_document svc bookname (n + 1) page_text vec) = vec"
      by (simp add: search_document_def)
  qed
  have e: "\<forall>vec. fst (embed_query svc ''-------'' (world st)) = Inr vec
          \<longrightarrow> world (snd (upload_page svc bookname (n, offset, []) st))
                = snd (post svc (search_document svc bookname (n + 1) [] vec)
                        (snd (embed_query svc ''-------'' (world st))))
            \<and> chunk (search_document svc bookname (n + 1) [] vec) = []
            \<and> chunkVector (search_document svc bookname (n + 1) [] vec) = vec"
  proof (intro allI impI)
    fix vec
    assume "fst (embed_query svc ''-------'' (world st)) = Inr vec"
    then have h: "fst (embed_query svc (if ([]::string) \<noteq> [] then [] else ''-------'') (world st)) = Inr vec"
      by simp
    from world_upload_page_embedded [OF h, of bookname n offset]
    show "world (snd (upload_page svc bookname (n, offset, []) st))
                = snd (post svc (search_document svc bookname (n + 1) [] vec)
                        (snd (embed_query svc ''-------'' (world st))))
            \<and> chunk (search_document svc bookname (n + 1) [] vec) = []
            \<and> chunkVector (search_document svc bookname (n + 1) [] vec) = vec"
      by (simp add: search_document_def)
  qed
  from a embed_log_upload_books [of svc book_pages_map st] c d e show ?thesis by (intro conjI)
qed

lemma embed_B_placeholder: "fst (embed_query services_B ''-------'' (world start_B)) = Inr [7]"
  by (simp add: services_B_def embed_B_def)

lemma post_B_blank_page:
  "snd (post services_B (search_document services_B ''a.pdf'' (1 + 1) [] [7])
         (snd (embed_query services_B ''-------'' (world start_B))))
     = [doc_id (search_document services_B ''a.pdf'' (1 + 1) [] [7])
          \<mapsto> search_document services_B ''a.pdf'' (1 + 1) [] [7]]"
  by (simp add: services_B_def embed_B_def post_B_def start_B_def search_document_def)

theorem placeholder_for_empty_text_witness:
  "fst (embed_query services_B ''-------'' (world start_B)) = Inr [7]
   \<and> fst (embed_B [] Map.empty) = Inr [0]
   \<and> world (snd (upload_page services_B ''a.pdf'' (1, 4, []) start_B))
       = [doc_id (search_document services_B ''a.pdf'' (1 + 1) [] [7])
            \<mapsto> search_document services_B ''a.pdf'' (1 + 1) [] [7]]
   \<and> chunk (search_document services_B ''a.pdf'' (1 + 1) [] [7]) = []
   \<and> chunkVector (search_document services_B ''a.pdf'' (1 + 1) [] [7]) = [7]"
proof -
  note r = placeholder_for_empty_text
    [where svc = services_B and st = start_B and bookname = "''a.pdf''" and n = 1 and offset = 4]
  from r embed_B_placeholder
  have "world (snd (upload_page services_B ''a.pdf'' (1, 4, []) start_B))
                = snd (post services_B (search_document services_B ''a.pdf'' (1 + 1) [] [7])
                        (snd (embed_query services_B ''-------'' (world start_B))))
            \<and> chunk (search_document services_B ''a.pdf'' (1 + 1) [] [7]) = []
            \<and> chunkVector (search_document services_B ''a.pdf'' (1 + 1) [] [7]) = [7]"
    by blast
  moreover have "fst (embed_B [] Map.empty) = Inr [0]" by (simp add: embed_B_def)
  ultimately show ?thesis using embed_B_placeholder by (simp only: post_B_blank_page simp_thms)
qed

text \<open>
  Claim C10. The document handed to the search service for a page has as id
  \<open>text_to_base64\<close> of the book name followed by the decimal page number, and as
  title the book name, \<open>_page_\<close> and the page number, where the page number is the first
  component of the page plus one. Two uploads of the same book and page, whatever their
  text, offset, vectors, services' answers and state, hand over documents with the same
  id and title, so in an index keyed by id the second replaces the first.
\<close>

theorem document_identity:
  assumes "fst (embed_query svc1 (if text1 \<noteq> [] then text1 else ''-------'') (world st1)) = Inr vec1"
    and "fst (embed_query svc2 (if text2 \<noteq> [] then text2 else ''-------'') (world st2)) = Inr vec2"
    and "text_to_base64 svc2 = text_to_base64 svc1"
  shows "world (snd (upload_page svc1 bookname (n, offset1, text1) st1))
           = snd (post svc1 (search_document svc1 bookname (n + 1) text1 vec1)
                   (snd (embed_query svc1 (if text1 \<noteq> [] then text1 else ''-------'') (world st1))))
       \<and> world (snd (upload_page svc2 bookname (n, offset2, text2) st2))
           = snd (post svc2 (search_document svc2 bookname (n + 1) text2 vec2)
                   (snd (embed_query svc2 (if text2 \<noteq> [] then text2 else ''-------'') (world st2))))
       \<and> doc_id (search_document svc1 bookname (n + 1) text1 vec1) = text_to_base64 svc1 (bookname @ str (n + 1))
       \<and> title (search_document svc1 bookname (n + 1) text1 vec1) = bookname @ ''_page_'' @ str (n + 1)
       \<and> page_num (search_document svc1 bookname (n + 1) text1 vec1) = n + 1
       \<and> doc_id (search_document svc2 bookname (n + 1) text2 vec2)
           = doc_id (search_document svc1 bookname (n + 1) text1 vec1)
       \<and> title (search_document svc2 bookname (n + 1) text2 vec2)
           = title (search_document svc1 bookname (n + 1) text1 vec1)
       \<and> (index(doc_id (search_document svc1 bookname (n + 1) text1 vec1)
                  \<mapsto> search_document svc1 bookname (n + 1) text1 vec1))
            (doc_id (search_document svc2 bookname (n + 1) text2 vec2)
                  \<mapsto> search_document svc2 bookname (n + 1) text2 vec2)
           = index(doc_id (search_document svc1 bookname (n + 1) text1 vec1)
                  \<mapsto> search_document svc2 bookname (n + 1) text2 vec2)"
proof -
  note w1 = world_upload_page_embedded [OF assms(1), of bookname n offset1, THEN conjunct1]
  note w2 = world_upload_page_embedded [OF assms(2), of bookname n offset2, THEN conjunct1]
  have ids: "doc_id (search_document svc2 bookname (n + 1) text2 vec2)
           = doc_id (search_document svc1 bookname (n + 1) text1 vec1)"
    using assms(3) by (simp add: search_document_def)
  have f: "doc_id (search_document svc1 bookname (n + 1) text1 vec1) = text_to_base64 svc1 (bookname @ str (n + 1))"
    "title (search_document svc1 bookname (n + 1) text1 vec1) = bookname @ ''_page_'' @ str (n + 1)"
    "page_num (search_document svc1 bookname (n + 1) text1 vec1) = n + 1"
    "title (search_document svc2 bookname (n + 1) text2 vec2)
           = title (search_document svc1 bookname (n + 1) text1 vec1)"
    by (simp_all add: search_document_def)
  have m: "(index(doc_id (search_document svc1 bookname (n + 1) text1 vec1)
                  \<mapsto> search_document svc1 bookname (n + 1) text1 vec1))
            (doc_id (search_document svc2 bookname (n + 1) text2 vec2)
                  \<mapsto> search_document svc2 bookname (n + 1) text2 vec2)
           = index(doc_id (search_document svc1 bookname (n + 1) text1 vec1)
                  \<mapsto> search_document svc2 bookname (n + 1) text2 vec2)"
    by (simp only: ids fun_upd_upd)
  from w1 w2 f ids m show ?thesis by (intro conjI)
qed

lemma str_1: "str 1 = ''1''"
  by code_simp

lemma str_2: "str 2 = ''2''"
  by code_simp

lemma b64_Made: "b64encode ''Made_To_Stick.pdf1'' = ''TWFkZV9Ub19TdGljay5wZGYx''"
  by code_simp

lemma search_document_fields:
  "doc_id (search_document svc b k t v) = text_to_base64 svc (b @ str k)"
  "title (search_document svc b k t v) = b @ ''_page_'' @ str k"
  "chunk (search_document svc b k t v) = t"
  "chunkVector (search_document svc b k t v) = v"
  "page_num (search_document svc b k t v) = k"
  by (simp_all add: search_document_def)

lemma embed_B_keeps_world: "snd (embed_query services_B s w) = w"
  by (simp add: services_B_def embed_B_def)

lemma embed_B_text: "s \<noteq> ''boom'' \<Longrightarrow> fst (embed_query services_B s w) = Inr [real (length s)]"
  by (simp add: services_B_def embed_B_def)

lemma post_B_stores:
  assumes "chunk d \<noteq> ''drop''" and "chunk d \<noteq> ''too big''" and "chunk d \<noteq> ''fail''"
  shows "snd (post services_B d w) = w(doc_id d \<mapsto> d)"
  using assms by (simp add: services_B_def post_B_def)

lemma embed_first:
  "fst (embed_query services_B (if ''first text'' \<noteq> [] then ''first text'' else ''-------'') (world start_B))
     = Inr [10]"
  by (simp add: embed_B_text)

lemma embed_later:
  "fst (embed_query services_B (if ''a later text'' \<noteq> [] then ''a later text'' else ''-------'')
          (world (snd (upload_page services_B ''Made_To_Stick.pdf'' (0, 0, ''first text'') start_B))))
     = Inr [12]"
  by (simp add: embed_B_text)

theorem document_identity_witness:
  "fst (embed_query services_B (if ''first text'' \<noteq> [] then ''first text'' else ''-------'') (world start_B))
     = Inr [10]
   \<and> fst (embed_query services_B (if ''a later text'' \<noteq> [] then ''a later text'' else ''-------'')
          (world (snd (upload_page services_B ''Made_To_Stick.pdf'' (0, 0, ''first text'') start_B))))
     = Inr [12]
   \<and> text_to_base64 services_B = text_to_base64 services_B
   \<and> doc_id (search_document services_B ''Made_To_Stick.pdf'' (0 + 1) ''first text'' [10])
       = ''TWFkZV9Ub19TdGljay5wZGYx''
   \<and> title (search_document services_B ''Made_To_Stick.pdf'' (0 + 1) ''first text'' [10])
       = ''Made_To_Stick.pdf_page_1''
   \<and> world (snd (upload_page services_B ''Made_To_Stick.pdf'' (0, 0, ''first text'') start_B))
       = [''TWFkZV9Ub19TdGljay5wZGYx''
            \<mapsto> search_document services_B ''Made_To_Stick.pdf'' (0 + 1) ''first text'' [10]]
   \<and> world (snd (upload_page services_B ''Made_To_Stick.pdf'' (0, 99, ''a later text'')
                    (snd (upload_page services_B ''Made_To_Stick.pdf'' (0, 0, ''first text'') start_B))))
       = [''TWFkZV9Ub19TdGljay5wZGYx''
            \<mapsto> search_document services_B ''Made_To_Stick.pdf'' (0 + 1) ''a later text'' [12]]"
proof -
  let ?b = "''Made_To_Stick.pdf''"
  let ?D1 = "search_document services_B ?b (0 + 1) ''first text'' [10]"
  let ?D2 = "search_document services_B ?b (0 + 1) ''a later text'' [12]"
  let ?st2 = "snd (upload_page services_B ?b (0, 0, ''first text'') start_B)"
  note r = document_identity [OF embed_first embed_later refl, of ?b 0 0 99 Map.empty]
  from r have w1: "world ?st2 = snd (post services_B ?D1
                     (snd (embed_query services_B (if ''first text'' \<noteq> [] then ''first text'' else ''-------'')
                            (world start_B))))"
    by blast
  from r have w2: "world (snd (upload_page services_B ?b (0, 99, ''a later text'') ?st2))
                     = snd (post services_B ?D2
                         (snd (embed_query services_B (if ''a later text'' \<noteq> [] then ''a later text'' else ''-------'')
                                (world ?st2))))"
    by blast
  from r have i1: "doc_id ?D1 = text_to_base64 services_B (?b @ str (0 + 1))"
    and t1: "title ?D1 = ?b @ ''_page_'' @ str (0 + 1)"
    and m: "[doc_id ?D1 \<mapsto> ?D1, doc_id ?D2 \<mapsto> ?D2] = [doc_id ?D1 \<mapsto> ?D2]"
    by blast+
  have key: "doc_id ?D1 = ''TWFkZV9Ub19TdGljay5wZGYx''"
    unfolding i1 by (simp add: services_B_def str_1 b64_Made)
  have ttl: "title ?D1 = ''Made_To_Stick.pdf_page_1''"
    unfolding t1 by (simp add: str_1)
  have s0: "world start_B = Map.empty" by (simp add: start_B_def)
  have p1: "snd (post services_B ?D1 Map.empty) = [doc_id ?D1 \<mapsto> ?D1]"
    by (rule post_B_stores) (simp_all add: search_document_fields)
  have p2: "snd (post services_B ?D2 [doc_id ?D1 \<mapsto> ?D1]) = [doc_id ?D1 \<mapsto> ?D1, doc_id ?D2 \<mapsto> ?D2]"
    by (rule post_B_stores) (simp_all add: search_document_fields)
  have e1: "world ?st2 = [doc_id ?D1 \<mapsto> ?D1]"
    unfolding w1 embed_B_keeps_world s0 by (rule p1)
  have e2: "world (snd (upload_page services_B ?b (0, 99, ''a later text'') ?st2)) = [doc_id ?D1 \<mapsto> ?D2]"
    unfolding w2 embed_B_keeps_world e1 p2 by (rule m)
  from embed_first embed_later key ttl e1 e2 show ?thesis unfolding key by (intro conjI) simp_all
qed

section \<open>Properties of the page segmenter\<close>














section \<open>Properties of result fusion\<close>

lemma set_dedup: "set (dedup cs) \<subseteq> set cs"
  by (induction cs rule: dedup.induct) auto

lemma distinct_content_dedup: "distinct (map content (dedup cs))"
proof (induction cs rule: dedup.induct)
  case 1
  then show ?case by simp
next
  case (2 c cs)
  have "content c \<notin> content ` set (dedup (filter (\<lambda>d. content d \<noteq> content c \<and> location d \<noteq> location c) cs))"
    using set_dedup [of "filter (\<lambda>d. content d \<noteq> content c \<and> location d \<noteq> location c) cs"]
    by auto
  with 2 show ?case by simp
qed

lemma sorted_wrt_dedup:
  assumes "transp R"
  shows "sorted_wrt R cs \<Longrightarrow> sorted_wrt R (dedup cs)"
proof (induction cs rule: dedup.induct)
  case 1
  then show ?case by simp
next
  case (2 c cs)
  let ?rest = "filter (\<lambda>d. content d \<noteq> content c \<and> location d \<noteq> location c) cs"
  from "2.prems" have c: "\<forall>d\<in>set cs. R c d" and s: "sorted_wrt R cs" by simp_all
  from s have "sorted_wrt R ?rest" by (rule sorted_wrt_filter)
  then have "sorted_wrt R (dedup ?rest)" by (rule "2.IH")
  moreover have "\<forall>d\<in>set (dedup ?rest). R c d"
    using c set_dedup [of ?rest] by auto
  ultimately show ?case by simp
qed

lemma descending_sort_key:
  "sorted_wrt (\<lambda>a b. ordering_score a \<ge> ordering_score b) (sort_key (\<lambda>c. - ordering_score c) cs)"
proof -
  have "sorted (map (\<lambda>c. - ordering_score c) (sort_key (\<lambda>c. - ordering_score c) cs))"
    by (rule sorted_sort_key)
  then show ?thesis by (simp add: sorted_map)
qed

text \<open>
  Claim C3. Whenever at least one index answered, fusion with parameters \<open>k\<close> and
  \<open>rerankerThreshold\<close> returns a sequence of at most \<open>k\<close> candidates, in descending order
  of ordering score, none with an ordering score below the threshold, and no two with
  the same content.
\<close>

theorem fused_output_properties:
  assumes "\<not> all_failed index_results"
  shows "\<exists>out. fuse surrogate index_results k rerankerThreshold = Inr out
           \<and> length out \<le> k
           \<and> sorted_wrt (\<lambda>a b. ordering_score a \<ge> ordering_score b) out
           \<and> (\<forall>c\<in>set out. \<not> ordering_score c < rerankerThreshold)
           \<and> distinct (map content out)"
proof -
  let ?kept = "filter (\<lambda>c. \<not> ordering_score c < rerankerThreshold) (merge_hits surrogate k index_results)"
  let ?sorted = "sort_key (\<lambda>c. - ordering_score c) ?kept"
  let ?out = "take k (dedup ?sorted)"
  have f: "fuse surrogate index_results k rerankerThreshold = Inr ?out"
    using assms by (simp add: fuse_def)
  have l: "length ?out \<le> k" by simp
  have tr: "transp (\<lambda>a b :: FusedCandidate. ordering_score a \<ge> ordering_score b)"
    by (auto simp: transp_def)
  have "sorted_wrt (\<lambda>a b. ordering_score a \<ge> ordering_score b) (dedup ?sorted)"
    using sorted_wrt_dedup [OF tr descending_sort_key] .
  then have s: "sorted_wrt (\<lambda>a b. ordering_score a \<ge> ordering_score b) ?out"
    by (rule sorted_wrt_take)
  have "set ?out \<subseteq> set (dedup ?sorted)" by (rule set_take_subset)
  also have "\<dots> \<subseteq> set ?sorted" by (rule set_dedup)
  also have "\<dots> = set ?kept" by simp
  finally have t: "\<forall>c\<in>set ?out. \<not> ordering_score c < rerankerThreshold" by auto
  have d: "distinct (map content ?out)"
    using distinct_content_dedup [of ?sorted] by (simp add: take_map [symmetric])
  from f l s t d show ?thesis by blast
qed

lemma fuse_AB:
  "fuse no_surrogate index_results_AB 5 1
     = Inr [\<lparr>content = ''best text'', location = Some ''loc-d'', ordering_score = 3\<rparr>,
            \<lparr>content = ''shared text'', location = Some ''loc-a'', ordering_score = 2.1\<rparr>]"
  by (simp add: fuse_def all_failed_def merge_hits_def max_relevance_def index_results_AB_def
      hit_X_def hit_Y_def hit_Z_def hit_W_def to_candidate_def enumerate_eq_zip)

theorem fused_output_properties_witness:
  "\<not> all_failed index_results_AB
   \<and> fuse no_surrogate index_results_AB 5 1
       = Inr [\<lparr>content = ''best text'', location = Some ''loc-d'', ordering_score = 3\<rparr>,
              \<lparr>content = ''shared text'', location = Some ''loc-a'', ordering_score = 2.1\<rparr>]
   \<and> length [\<lparr>content = ''best text'', location = Some ''loc-d'', ordering_score = 3\<rparr>,
              \<lparr>content = ''shared text'', location = Some ''loc-a'', ordering_score = 2.1\<rparr>] \<le> (5::nat)
   \<and> distinct (map content [\<lparr>content = ''best text'', location = Some ''loc-d'', ordering_score = 3\<rparr>,
              \<lparr>content = ''shared text'', location = Some ''loc-a'', ordering_score = 2.1\<rparr>])"
proof -
  have h: "\<not> all_failed index_results_AB"
    by (simp add: all_failed_def index_results_AB_def)
  from fused_output_properties [OF h, of no_surrogate 5 1]
  obtain out where o: "fuse no_surrogate index_results_AB 5 1 = Inr out"
    and l: "length out \<le> 5" and d: "distinct (map content out)"
    by blast
  from o have eq: "out = [\<lparr>content = ''best text'', location = Some ''loc-d'', ordering_score = 3\<rparr>,
              \<lparr>content = ''shared text'', location = Some ''loc-a'', ordering_score = 2.1\<rparr>]"
    by (simp add: fuse_AB)
  from l d show ?thesis unfolding eq using h fuse_AB by blast
qed

end
